theory Spec2Isabelle
  imports Main "HOL-Library.Sublist"
begin

section \<open>JavaScript strings\<close>

text \<open>
  A JavaScript string is a sequence of UTF-16 code units, and \<open>length\<close>,
  \<open>substring\<close>, \<open>trim\<close> and the regular expressions of the content script all
  work on code units. A code unit is modelled by its number (below \<open>65536\<close> in a
  real string), so \<open>length\<close> here is the \<open>.length\<close> of the source.
  \<open>js\<close> turns an ASCII literal into such a string.
\<close>

type_synonym code_unit = nat
type_synonym js_string = "code_unit list"

definition cu :: "char \<Rightarrow> code_unit" where
  "cu c = of_char c"

definition js :: "string \<Rightarrow> js_string" where
  "js s = map cu s"

text \<open>The line feed, \<open>\n\<close> in the source's literals.\<close>

definition LF :: code_unit where
  "LF = 10"

text \<open>
  \<open>String.prototype.trim\<close> removes WhiteSpace and LineTerminator code points
  (ECMA-262, 22.1.3.32) from both ends.
\<close>

definition is_js_whitespace :: "code_unit \<Rightarrow> bool" where
  "is_js_whitespace c \<longleftrightarrow>
     c = 0x09 \<or> c = 0x0A \<or> c = 0x0B \<or> c = 0x0C \<or> c = 0x0D \<or> c = 0x20 \<or> c = 0xA0 \<or>
     c = 0x1680 \<or> (0x2000 \<le> c \<and> c \<le> 0x200A) \<or> c = 0x2028 \<or> c = 0x2029 \<or>
     c = 0x202F \<or> c = 0x205F \<or> c = 0x3000 \<or> c = 0xFEFF"

definition trimEnd :: "js_string \<Rightarrow> js_string" where
  "trimEnd s = rev (dropWhile is_js_whitespace (rev s))"

definition trim :: "js_string \<Rightarrow> js_string" where
  "trim s = trimEnd (dropWhile is_js_whitespace s)"

text \<open>\<open>xs.join(sep)\<close> on an array of strings.\<close>

fun join :: "js_string \<Rightarrow> js_string list \<Rightarrow> js_string" where
  "join sep [] = []"
| "join sep [x] = x"
| "join sep (x # y # ys) = x @ sep @ join sep (y # ys)"

text \<open>\<open>s.substring(0, n)\<close> is \<open>take n s\<close>; \<open>s.endsWith(t)\<close> is \<open>suffix t s\<close>.\<close>

definition substring0 :: "nat \<Rightarrow> js_string \<Rightarrow> js_string" where
  "substring0 n s = take n s"

definition endsWith :: "js_string \<Rightarrow> js_string \<Rightarrow> bool" where
  "endsWith s t \<longleftrightarrow> length t \<le> length s \<and> drop (length s - length t) s = t"

text \<open>
  Lower case of the letters \<open>A\<close> to \<open>Z\<close>. \<open>toLowerCase\<close> also maps letters
  outside ASCII, of which only U+212A (to \<open>k\<close>) and U+0130 (to \<open>i\<close> followed by
  U+0307) reach ASCII; neither can complete one of the extensions that
  \<open>extractFromADOApi\<close> compares with, so for \<open>endsWith\<close> against them the ASCII
  mapping decides as the source does. In a regular expression with the \<open>i\<close> flag
  a code unit outside ASCII never matches an ASCII letter (ECMA-262, Canonicalize).
\<close>

definition lower_ascii :: "code_unit \<Rightarrow> code_unit" where
  "lower_ascii c = (if 0x41 \<le> c \<and> c \<le> 0x5A then c + 0x20 else c)"

definition toLowerCase :: "js_string \<Rightarrow> js_string" where
  "toLowerCase s = map lower_ascii s"

text \<open>Decimal digits of a number, as a template literal prints it.\<close>

fun digits_of :: "nat \<Rightarrow> nat \<Rightarrow> js_string" where
  "digits_of 0 n = []"
| "digits_of (Suc fuel) n =
     (if n < 10 then [0x30 + n] else digits_of fuel (n div 10) @ [0x30 + n mod 10])"

definition show_nat :: "nat \<Rightarrow> js_string" where
  "show_nat n = digits_of (Suc n) n"

section \<open>JSON values and \<open>JSON.parse\<close>\<close>

text \<open>
  The values \<open>JSON.parse\<close> can return. A number is kept exactly, as sign, decimal
  mantissa and decimal exponent (the value is \<open>mantissa * 10 ^ exponent\<close>); an
  object keeps its members in the order of the text.
\<close>

datatype json =
    JNull
  | JBool bool
  | JNumber bool nat int
  | JString js_string
  | JArray "json list"
  | JObject "(js_string \<times> json) list"

datatype token =
    TLBrace | TRBrace | TLBracket | TRBracket | TColon | TComma
  | TString js_string
  | TScalar json

subsection \<open>Lexical analysis\<close>

definition is_json_ws :: "code_unit \<Rightarrow> bool" where
  "is_json_ws c \<longleftrightarrow> c = 0x20 \<or> c = 0x09 \<or> c = 0x0A \<or> c = 0x0D"

definition is_digit :: "code_unit \<Rightarrow> bool" where
  "is_digit c \<longleftrightarrow> 0x30 \<le> c \<and> c \<le> 0x39"

definition is_letter :: "code_unit \<Rightarrow> bool" where
  "is_letter c \<longleftrightarrow> (0x41 \<le> c \<and> c \<le> 0x5A) \<or> (0x61 \<le> c \<and> c \<le> 0x7A)"

text \<open>
  The code units of numbers and of the literals \<open>true\<close>, \<open>false\<close>, \<open>null\<close>. The
  JSON grammar never lets two such tokens touch, so a maximal run of these code units
  is one token or a syntax error.
\<close>

definition is_word_char :: "code_unit \<Rightarrow> bool" where
  "is_word_char c \<longleftrightarrow> is_digit c \<or> is_letter c \<or> c = 0x2B \<or> c = 0x2D \<or> c = 0x2E"

definition digits_val :: "js_string \<Rightarrow> nat" where
  "digits_val ds = foldl (\<lambda>a d. 10 * a + (d - 0x30)) 0 ds"

text \<open>
  The number grammar: an optional minus, \<open>0\<close> or a digit sequence that does not
  start with \<open>0\<close>, an optional fraction (a dot and at least one digit), an optional
  exponent (\<open>e\<close> or \<open>E\<close>, an optional sign, at least one digit).
\<close>

definition parse_exponent :: "js_string \<Rightarrow> int option" where
  "parse_exponent r =
     (case r of
        [] \<Rightarrow> Some 0
      | c # r1 \<Rightarrow>
          if c = 0x65 \<or> c = 0x45 then
            (let negative = (take 1 r1 = [0x2D]);
                 ds = (if take 1 r1 = [0x2D] \<or> take 1 r1 = [0x2B] then drop 1 r1 else r1)
             in if ds \<noteq> [] \<and> list_all is_digit ds
                then Some (if negative then - int (digits_val ds) else int (digits_val ds))
                else None)
          else None)"

definition parse_fraction :: "js_string \<Rightarrow> (js_string \<times> js_string) option" where
  "parse_fraction r =
     (case r of
        [] \<Rightarrow> Some ([], [])
      | c # r1 \<Rightarrow>
          if c = 0x2E then
            (if takeWhile is_digit r1 = [] then None
             else Some (takeWhile is_digit r1, dropWhile is_digit r1))
          else Some ([], r))"

definition parse_number :: "js_string \<Rightarrow> json option" where
  "parse_number w =
     (let negative = (take 1 w = [0x2D]);
          w1 = (if negative then drop 1 w else w);
          ip = takeWhile is_digit w1
      in if ip = [] \<or> (1 < length ip \<and> take 1 ip = [0x30]) then None
         else (case parse_fraction (dropWhile is_digit w1) of
                 None \<Rightarrow> None
               | Some (fp, r2) \<Rightarrow>
                   (case parse_exponent r2 of
                      None \<Rightarrow> None
                    | Some e \<Rightarrow>
                        Some (JNumber negative (digits_val (ip @ fp)) (e - int (length fp))))))"

definition word_token :: "js_string \<Rightarrow> token option" where
  "word_token w =
     (if w = js ''true'' then Some (TScalar (JBool True))
      else if w = js ''false'' then Some (TScalar (JBool False))
      else if w = js ''null'' then Some (TScalar JNull)
      else map_option TScalar (parse_number w))"

definition punctuation :: "code_unit \<Rightarrow> token option" where
  "punctuation c =
     (if c = 0x7B then Some TLBrace
      else if c = 0x7D then Some TRBrace
      else if c = 0x5B then Some TLBracket
      else if c = 0x5D then Some TRBracket
      else if c = 0x3A then Some TColon
      else if c = 0x2C then Some TComma
      else None)"

definition hex_val :: "code_unit \<Rightarrow> nat option" where
  "hex_val c =
     (if is_digit c then Some (c - 0x30)
      else if 0x41 \<le> c \<and> c \<le> 0x46 then Some (c - 0x41 + 10)
      else if 0x61 \<le> c \<and> c \<le> 0x66 then Some (c - 0x61 + 10)
      else None)"

text \<open>
  The lexer reads one code unit at a time. In \<open>LString\<close>, \<open>LEscape\<close> and
  \<open>LUnicode\<close> it is inside a string literal whose code units so far are kept in
  reverse; in \<open>LWord\<close> it is inside a number or a literal name.
\<close>

datatype lex_state =
    LStart
  | LString js_string
  | LEscape js_string
  | LUnicode js_string "nat list"
  | LWord js_string

definition lex_start :: "code_unit \<Rightarrow> (lex_state \<times> token list) option" where
  "lex_start c =
     (if is_json_ws c then Some (LStart, [])
      else if c = 0x22 then Some (LString [], [])
      else (case punctuation c of
              Some t \<Rightarrow> Some (LStart, [t])
            | None \<Rightarrow> if is_word_char c then Some (LWord [c], []) else None))"

definition lex_escape :: "code_unit \<Rightarrow> code_unit option" where
  "lex_escape c =
     (if c = 0x22 \<or> c = 0x5C \<or> c = 0x2F then Some c
      else if c = 0x62 then Some 0x08
      else if c = 0x66 then Some 0x0C
      else if c = 0x6E then Some 0x0A
      else if c = 0x72 then Some 0x0D
      else if c = 0x74 then Some 0x09
      else None)"

fun lex_step :: "lex_state \<Rightarrow> code_unit \<Rightarrow> (lex_state \<times> token list) option" where
  "lex_step LStart c = lex_start c"
| "lex_step (LString acc) c =
     (if c = 0x22 then Some (LStart, [TString (rev acc)])
      else if c = 0x5C then Some (LEscape acc, [])
      else if c < 0x20 then None
      else Some (LString (c # acc), []))"
| "lex_step (LEscape acc) c =
     (if c = 0x75 then Some (LUnicode acc [], [])
      else (case lex_escape c of
              Some e \<Rightarrow> Some (LString (e # acc), [])
            | None \<Rightarrow> None))"
| "lex_step (LUnicode acc hs) c =
     (case hex_val c of
        None \<Rightarrow> None
      | Some h \<Rightarrow>
          if length hs = 3
          then Some (LString (foldl (\<lambda>a d. 16 * a + d) 0 (hs @ [h]) # acc), [])
          else Some (LUnicode acc (hs @ [h]), []))"
| "lex_step (LWord w) c =
     (if is_word_char c then Some (LWord (c # w), [])
      else (case word_token (rev w) of
              None \<Rightarrow> None
            | Some t \<Rightarrow>
                (case lex_start c of
                   None \<Rightarrow> None
                 | Some (st, ts) \<Rightarrow> Some (st, t # ts))))"

fun lex_end :: "lex_state \<Rightarrow> token list option" where
  "lex_end LStart = Some []"
| "lex_end (LWord w) = map_option (\<lambda>t. [t]) (word_token (rev w))"
| "lex_end (LString acc) = None"
| "lex_end (LEscape acc) = None"
| "lex_end (LUnicode acc hs) = None"

fun tokenize :: "lex_state \<Rightarrow> js_string \<Rightarrow> token list option" where
  "tokenize st [] = lex_end st"
| "tokenize st (c # cs) =
     (case lex_step st c of
        None \<Rightarrow> None
      | Some (st', ts) \<Rightarrow> map_option (\<lambda>rest. ts @ rest) (tokenize st' cs))"

subsection \<open>Syntax analysis\<close>

text \<open>
  The parser keeps the open arrays and objects on a stack, innermost first. An object
  frame holds the key that waits for its value.
\<close>

datatype frame =
    ArrFrame "json list"
  | ObjFrame "(js_string \<times> json) list" "js_string option"

datatype expect =
    EValue
  | EValueOrClose
  | EKeyOrClose
  | EKey
  | EColon
  | ECommaOrClose

datatype pstate =
    Running "frame list" expect
  | Done json

text \<open>A finished value goes to the innermost open container, or is the result.\<close>

fun deliver :: "frame list \<Rightarrow> json \<Rightarrow> pstate option" where
  "deliver [] v = Some (Done v)"
| "deliver (ArrFrame xs # fs) v = Some (Running (ArrFrame (xs @ [v]) # fs) ECommaOrClose)"
| "deliver (ObjFrame kvs (Some k) # fs) v =
     Some (Running (ObjFrame (kvs @ [(k, v)]) None # fs) ECommaOrClose)"
| "deliver (ObjFrame kvs None # fs) v = None"

fun begin_value :: "frame list \<Rightarrow> token \<Rightarrow> pstate option" where
  "begin_value fs TLBracket = Some (Running (ArrFrame [] # fs) EValueOrClose)"
| "begin_value fs TLBrace = Some (Running (ObjFrame [] None # fs) EKeyOrClose)"
| "begin_value fs (TString s) = deliver fs (JString s)"
| "begin_value fs (TScalar v) = deliver fs v"
| "begin_value fs _ = None"

fun close_array :: "frame list \<Rightarrow> pstate option" where
  "close_array (ArrFrame xs # fs) = deliver fs (JArray xs)"
| "close_array _ = None"

fun close_object :: "frame list \<Rightarrow> pstate option" where
  "close_object (ObjFrame kvs None # fs) = deliver fs (JObject kvs)"
| "close_object _ = None"

fun take_key :: "frame list \<Rightarrow> js_string \<Rightarrow> pstate option" where
  "take_key (ObjFrame kvs None # fs) k = Some (Running (ObjFrame kvs (Some k) # fs) EColon)"
| "take_key _ k = None"

fun after_comma :: "frame list \<Rightarrow> pstate option" where
  "after_comma (ArrFrame xs # fs) = Some (Running (ArrFrame xs # fs) EValue)"
| "after_comma (ObjFrame kvs None # fs) = Some (Running (ObjFrame kvs None # fs) EKey)"
| "after_comma _ = None"

fun parse_step :: "pstate \<Rightarrow> token \<Rightarrow> pstate option" where
  "parse_step (Done v) t = None"
| "parse_step (Running fs EValue) t = begin_value fs t"
| "parse_step (Running fs EValueOrClose) t =
     (if t = TRBracket then close_array fs else begin_value fs t)"
| "parse_step (Running fs EKeyOrClose) t =
     (case t of TString k \<Rightarrow> take_key fs k | TRBrace \<Rightarrow> close_object fs | _ \<Rightarrow> None)"
| "parse_step (Running fs EKey) t =
     (case t of TString k \<Rightarrow> take_key fs k | _ \<Rightarrow> None)"
| "parse_step (Running fs EColon) t =
     (if t = TColon then Some (Running fs EValue) else None)"
| "parse_step (Running fs ECommaOrClose) t =
     (case t of
        TComma \<Rightarrow> after_comma fs
      | TRBracket \<Rightarrow> close_array fs
      | TRBrace \<Rightarrow> close_object fs
      | _ \<Rightarrow> None)"

fun parse_tokens :: "pstate \<Rightarrow> token list \<Rightarrow> json option" where
  "parse_tokens (Done v) [] = Some v"
| "parse_tokens (Running fs e) [] = None"
| "parse_tokens st (t # ts) =
     (case parse_step st t of None \<Rightarrow> None | Some st' \<Rightarrow> parse_tokens st' ts)"

text \<open>
  \<open>JSON.parse(text)\<close>: \<open>None\<close> is the \<open>SyntaxError\<close> it throws. (The grammar
  is that of ECMA-404; a limit an engine puts on the nesting depth is not modelled.)
\<close>

definition JSON_parse :: "js_string \<Rightarrow> json option" where
  "JSON_parse text =
     (case tokenize LStart text of
        None \<Rightarrow> None
      | Some ts \<Rightarrow> parse_tokens (Running [] EValue) ts)"

text \<open>
  Property access \<open>obj.key\<close> on a parsed object; \<open>None\<close> is \<open>undefined\<close>. Of
  members with the same key \<open>JSON.parse\<close> keeps the last.
\<close>

definition get_prop :: "js_string \<Rightarrow> (js_string \<times> json) list \<Rightarrow> json option" where
  "get_prop k kvs = map_of (rev kvs) k"

text \<open>
  Truthiness (\<open>ToBoolean\<close>). A number is falsy when its binary64 value is zero: its
  mantissa is zero, or it is at most \<open>2 ^ -1075\<close>, half the least positive binary64
  value, and rounds to zero.
\<close>

definition rounds_to_zero :: "nat \<Rightarrow> int \<Rightarrow> bool" where
  "rounds_to_zero m e \<longleftrightarrow> m = 0 \<or> (e < 0 \<and> m * 2 ^ 1075 \<le> 10 ^ nat (- e))"

fun truthy :: "json \<Rightarrow> bool" where
  "truthy JNull = False"
| "truthy (JBool b) = b"
| "truthy (JNumber negative m e) = (\<not> rounds_to_zero m e)"
| "truthy (JString s) = (s \<noteq> [])"
| "truthy (JArray xs) = True"
| "truthy (JObject kvs) = True"

section \<open>The response parser\<close>

text \<open>What a JavaScript statement can throw here.\<close>

datatype js_error =
    SyntaxError
  | TypeError
  | Error js_string

text \<open>
  The object \<open>parseReviewResponse\<close> returns: \<open>summary\<close> is \<open>JNull\<close> for
  \<open>null\<close>; \<open>issues\<close> is whatever value the source stores there.
\<close>

record review_result =
  summary :: json
  issues :: json

text \<open>
  \<open>s.replace(/^```json\n?/i, '')\<close> and \<open>s.replace(/^```\n?/, '')\<close>: the
  fence at the very start, with the line feed after it if there is one.
\<close>

definition strip_json_fence_start :: "js_string \<Rightarrow> js_string" where
  "strip_json_fence_start s =
     (if 7 \<le> length s \<and> map lower_ascii (take 7 s) = js ''```json''
      then (if take 1 (drop 7 s) = [LF] then drop 8 s else drop 7 s)
      else s)"

definition strip_fence_start :: "js_string \<Rightarrow> js_string" where
  "strip_fence_start s =
     (if take 3 s = js ''```''
      then (if take 1 (drop 3 s) = [LF] then drop 4 s else drop 3 s)
      else s)"

text \<open>
  \<open>s.replace(/\n?```$/, '')\<close> (with or without the \<open>i\<close> flag): the fence at the
  very end, with the line feed before it if there is one.
\<close>

definition strip_fence_end :: "js_string \<Rightarrow> js_string" where
  "strip_fence_end s =
     (if take 3 (rev s) = js ''```''
      then (if take 1 (drop 3 (rev s)) = [LF] then rev (drop 4 (rev s)) else rev (drop 3 (rev s)))
      else s)"

definition clean_response :: "js_string \<Rightarrow> js_string" where
  "clean_response response =
     strip_fence_end (strip_fence_start (strip_fence_end (strip_json_fence_start (trim response))))"

text \<open>
  \<open>response.match(/\{[\s\S]*\}/)\<close> and \<open>response.match(/\[[\s\S]*\]/)\<close>: the
  match is leftmost and greedy, so it runs from the first opening code unit to the
  last closing one after it; \<open>None\<close> is the \<open>null\<close> of no match.
\<close>

definition match_span :: "code_unit \<Rightarrow> code_unit \<Rightarrow> js_string \<Rightarrow> js_string option" where
  "match_span opening closing s =
     (let from_open = dropWhile (\<lambda>c. c \<noteq> opening) s;
          span = rev (dropWhile (\<lambda>c. c \<noteq> closing) (rev from_open))
      in if from_open = [] \<or> span = [] then None else Some span)"

text \<open>\<open>parsed.summary || null\<close> and \<open>Array.isArray(parsed.issues) ? parsed.issues : []\<close>.\<close>

definition summary_or_null :: "(js_string \<times> json) list \<Rightarrow> json" where
  "summary_or_null kvs =
     (case get_prop (js ''summary'') kvs of
        None \<Rightarrow> JNull
      | Some v \<Rightarrow> if truthy v then v else JNull)"

definition issues_or_empty :: "(js_string \<times> json) list \<Rightarrow> json" where
  "issues_or_empty kvs =
     (case get_prop (js ''issues'') kvs of
        Some (JArray xs) \<Rightarrow> JArray xs
      | _ \<Rightarrow> JArray [])"

text \<open>The \<open>try\<close> block: clean the text, parse all of it, read the shape.\<close>

definition try_block :: "js_string \<Rightarrow> js_error + review_result" where
  "try_block response =
     (case JSON_parse (clean_response response) of
        None \<Rightarrow> Inl SyntaxError
      | Some (JObject kvs) \<Rightarrow>
          Inr \<lparr>summary = summary_or_null kvs, issues = issues_or_empty kvs\<rparr>
      | Some (JArray xs) \<Rightarrow> Inr \<lparr>summary = JNull, issues = JArray xs\<rparr>
      | Some _ \<Rightarrow> Inr \<lparr>summary = JNull, issues = JArray []\<rparr>)"

text \<open>
  The first inner \<open>try\<close>: the object span is parsed and its properties are read
  with no check of the shape. Reading a property of \<open>null\<close> throws; reading one of
  a number, string, boolean or array gives \<open>undefined\<close>.
\<close>

definition try_object_span :: "js_string \<Rightarrow> js_error + review_result" where
  "try_object_span span =
     (case JSON_parse span of
        None \<Rightarrow> Inl SyntaxError
      | Some JNull \<Rightarrow> Inl TypeError
      | Some (JObject kvs) \<Rightarrow>
          Inr \<lparr>summary = summary_or_null kvs, issues = issues_or_empty kvs\<rparr>
      | Some _ \<Rightarrow> Inr \<lparr>summary = JNull, issues = JArray []\<rparr>)"

text \<open>The second inner \<open>try\<close>: the array span is parsed and stored as it is.\<close>

definition try_array_span :: "js_string \<Rightarrow> js_error + review_result" where
  "try_array_span span =
     (case JSON_parse span of
        None \<Rightarrow> Inl SyntaxError
      | Some v \<Rightarrow> Inr \<lparr>summary = JNull, issues = v\<rparr>)"

text \<open>
  The \<open>catch\<close> block. Each inner \<open>try\<close> has a \<open>catch\<close> that only logs, so an
  error there goes on to the next step.
\<close>

definition catch_block :: "js_string \<Rightarrow> js_error + review_result" where
  "catch_block response =
     (case (case match_span 0x7B 0x7D response of
              None \<Rightarrow> Inl SyntaxError
            | Some span \<Rightarrow> try_object_span span) of
        Inr r \<Rightarrow> Inr r
      | Inl _ \<Rightarrow>
          (case (case match_span 0x5B 0x5D response of
                   None \<Rightarrow> Inl SyntaxError
                 | Some span \<Rightarrow> try_array_span span) of
             Inr r \<Rightarrow> Inr r
           | Inl _ \<Rightarrow> Inr \<lparr>summary = JNull, issues = JArray []\<rparr>))"

definition parseReviewResponse :: "js_string \<Rightarrow> js_error + review_result" where
  "parseReviewResponse response =
     (case try_block response of
        Inr r \<Rightarrow> Inr r
      | Inl _ \<Rightarrow> catch_block response)"

section \<open>Change records and settings\<close>

text \<open>One entry of \<open>additions\<close> or \<open>deletions\<close>: \<open>{ line, content }\<close>.\<close>

record diff_line =
  line :: nat
  content :: js_string

text \<open>
  The object an extraction strategy pushes for one file. A property the object
  literal does not have is \<open>None\<close> (\<open>undefined\<close>), or \<open>False\<close> for the two
  flags, which are only tested for truth. \<open>element\<close> is a handle of a DOM node,
  \<open>None\<close> for \<open>null\<close>.
\<close>

record diff =
  filename :: js_string
  content :: "js_string option"
  additions :: "diff_line list option"
  deletions :: "diff_line list option"
  hasNewCode :: "bool option"
  isSelection :: bool
  isApiDiff :: bool
  originalContent :: "js_string option"
  newContent :: "js_string option"
  changeType :: "js_string option"
  element :: "nat option"

record focus_areas =
  bugs :: bool
  security :: bool
  performance :: bool
  style :: bool
  naming :: bool
  docs :: bool
  tests :: bool

record settings =
  apiKey :: js_string
  model :: js_string
  reviewDepth :: js_string
  focusAreas :: focus_areas

section \<open>The prompt builder\<close>

definition text_lines :: "string list \<Rightarrow> js_string" where
  "text_lines ls = join [LF] (map js ls)"

text \<open>
  The fixed text of the two templates of \<open>buildReviewPrompt\<close>, cut where the
  template literals interpolate a value.
\<close>

definition api_intro :: js_string where
  \<open>api_intro = text_lines
     [''You are an expert code reviewer performing a Pull Request review.'',
      ''      '',
      ''FILE: '']\<close>

definition api_change_type :: js_string where
  \<open>api_change_type = text_lines
     ['''',
      ''CHANGE TYPE: '']\<close>

definition api_original :: js_string where
  \<open>api_original = text_lines
     ['''',
      '''',
      ''I will provide the ORIGINAL code and the NEW code.'',
      ''1. Identify the changes between the two versions.'',
      ''2. Review ONLY the NEW/CHANGED code.'',
      '''',
      ''ORIGINAL CODE:'',
      ''```'',
      '''']\<close>

definition api_new :: js_string where
  \<open>api_new = text_lines
     ['''',
      ''```'',
      '''',
      ''NEW CODE:'',
      ''```'',
      '''']\<close>

definition api_requirements :: js_string where
  \<open>api_requirements = text_lines
     ['''',
      ''```'',
      '''',
      ''CRITICAL REVIEW REQUIREMENTS:'',
      ''1. Review ONLY the new/changed code - ignore unchanged code'',
      ''2. '']\<close>

definition dom_intro :: js_string where
  \<open>dom_intro = text_lines
     [''You are an expert code reviewer performing a Pull Request review. Review ONLY the NEW/CHANGED CODE below.'',
      '''',
      ''FILE: '']\<close>

definition dom_lines_added :: js_string where
  \<open>dom_lines_added = text_lines
     ['''',
      ''LINES ADDED: '']\<close>

definition dom_code :: js_string where
  \<open>dom_code = text_lines
     ['''',
      '''',
      ''NEW/CHANGED CODE (review ONLY this - these are the additions in the PR):'',
      ''```'',
      '''']\<close>

definition dom_requirements :: js_string where
  \<open>dom_requirements = text_lines
     ['''',
      ''```'',
      '''',
      ''CRITICAL REVIEW REQUIREMENTS:'',
      ''1. Review ONLY the new/changed code shown above - ignore any existing code'',
      ''2. '']\<close>

definition prompt_focus :: js_string where
  \<open>prompt_focus = text_lines
     ['''',
      ''3. Focus areas: '']\<close>

definition prompt_tail :: js_string where
  \<open>prompt_tail = text_lines
     ['''',
      '''',
      ''FIRST: Provide a brief SUMMARY of what this change does (2-3 sentences max).'',
      '''',
      ''CONTEXTUAL ANALYSIS - Flag these issues:'',
      ''- **Unused exports**: If a new function/class/constant is exported, flag it as needing to be consumed somewhere in the PR'',
      ''- **Incomplete implementations**: New functions that are declared but might not be called/used'',
      ''- **Missing imports**: If new code references something that appears to need importing'',
      ''- **Orphaned code**: New code that doesn't seem to integrate with anything'',
      ''- **API contracts**: New exported functions should have clear contracts (types, docs)'',
      ''- **Dead code**: New code paths that can never be reached'',
      ''- **Missing error handling**: New async functions without try-catch, new promises without .catch()'',
      ''- **Unfinished TODOs**: New TODO/FIXME comments that should be addressed before merge'',
      '''',
      ''PR-SPECIFIC CHECKS:'',
      ''- If a new function is exported, ask: "Is this export consumed elsewhere in the PR?"'',
      ''- If a new interface/type is defined, ask: "Is this type used in the PR?"'',
      ''- If a new constant is exported, ask: "Where is this constant used?"'',
      ''- Flag any new public API that lacks documentation'',
      '''',
      ''RESPONSE FORMAT (JSON object with summary and issues):'',
      ''{'',
      ''  "summary": {'',
      ''    "description": "<2-3 sentence summary of what this code change does>",'',
      ''    "mainChanges": ["<change 1>", "<change 2>", ...],'',
      ''    "newExports": ["<list of new exported functions/classes/constants>"],'',
      ''    "riskLevel": "low" | "medium" | "high"'',
      ''  },'',
      ''  "issues": ['',
      ''    {'',
      ''      "line": <line number or range like "10-15">,'',
      ''      "severity": "critical" | "warning" | "suggestion",'',
      ''      "category": "bug" | "security" | "performance" | "style" | "unused-export" | "incomplete" | "documentation",'',
      ''      "title": "<brief title>",'',
      ''      "description": "<detailed explanation>",'',
      ''      "suggestion": "<how to fix, include code if helpful>"'',
      ''    }'',
      ''  ]'',
      ''}'',
      '''',
      ''If no issues found, return: {"summary": {...}, "issues": []}'',
      '''',
      ''IMPORTANT: Return ONLY valid JSON object, no markdown or extra text.'']\<close>

definition focusAreas_list :: "focus_areas \<Rightarrow> js_string list" where
  "focusAreas_list f =
     (if bugs f then [js ''bugs, logic errors, and potential runtime issues''] else []) @
     (if security f
      then [js ''security vulnerabilities (SQL injection, XSS, auth issues, etc.)''] else []) @
     (if performance f then [js ''performance issues and inefficiencies''] else []) @
     (if style f then [js ''code style and best practices''] else []) @
     (if naming f then [js ''naming conventions and clarity''] else []) @
     (if docs f then [js ''missing documentation and comments''] else []) @
     (if tests f then [js ''test coverage concerns''] else [])"

text \<open>
  \<open>depthInstructions[settings.reviewDepth] || depthInstructions.standard\<close>, for the
  object literal's own keys. (A key that \<open>Object.prototype\<close> defines, such as
  \<open>toString\<close>, would find an inherited function; the settings form only offers
  the three own keys.)
\<close>

definition depthInstructions :: "js_string \<Rightarrow> js_string option" where
  "depthInstructions k =
     (if k = js ''quick'' then Some (js ''Focus only on critical issues. Be brief.'')
      else if k = js ''standard''
      then Some (js ''Provide a balanced review covering important issues.'')
      else if k = js ''thorough''
      then Some (js ''Do an in-depth analysis. Check every detail. Be comprehensive.'')
      else None)"

definition depth_instruction :: "settings \<Rightarrow> js_string" where
  "depth_instruction s =
     (case depthInstructions (reviewDepth s) of
        Some t \<Rightarrow> t
      | None \<Rightarrow> js ''Provide a balanced review covering important issues.'')"

text \<open>The end of both templates, from the depth instruction on.\<close>

definition prompt_end :: "settings \<Rightarrow> js_string" where
  "prompt_end s =
     depth_instruction s @ prompt_focus @ join (js '', '') (focusAreas_list (focusAreas s)) @
     prompt_tail"

text \<open>How a template literal prints a property that may be \<open>undefined\<close>.\<close>

definition interpolate :: "js_string option \<Rightarrow> js_string" where
  "interpolate v = (case v of Some t \<Rightarrow> t | None \<Rightarrow> js ''undefined'')"

text \<open>\<open>v || ''\<close> for a string property.\<close>

definition or_empty :: "js_string option \<Rightarrow> js_string" where
  "or_empty v = (case v of Some t \<Rightarrow> t | None \<Rightarrow> [])"

text \<open>
  \<open>codeToReview\<close>: the record's \<open>content\<close>, replaced by the joined additions
  when \<open>diff.additions && diff.additions.length > 0\<close>.
\<close>

definition codeToReview :: "diff \<Rightarrow> js_string option" where
  "codeToReview d =
     (case additions d of
        None \<Rightarrow> diff.content d
      | Some as \<Rightarrow>
          if 0 < length as then Some (join [LF] (map diff_line.content as))
          else diff.content d)"

definition additionsCount :: "diff \<Rightarrow> nat" where
  "additionsCount d = (case additions d of None \<Rightarrow> 0 | Some as \<Rightarrow> length as)"

text \<open>
  \<open>buildReviewPrompt\<close>. \<open>codeToReview.substring\<close> throws a \<open>TypeError\<close> when
  the record has neither additions nor \<open>content\<close>.
\<close>

definition buildReviewPrompt :: "diff \<Rightarrow> settings \<Rightarrow> js_error + js_string" where
  "buildReviewPrompt d s =
     (if isApiDiff d then
        Inr (api_intro @ filename d @ api_change_type @ interpolate (changeType d) @
             api_original @ substring0 20000 (or_empty (originalContent d)) @
             api_new @ substring0 20000 (or_empty (newContent d)) @
             api_requirements @ prompt_end s)
      else
        (case codeToReview d of
           None \<Rightarrow> Inl TypeError
         | Some code \<Rightarrow>
             Inr (dom_intro @ filename d @ dom_lines_added @ show_nat (additionsCount d) @
                  dom_code @ substring0 15000 code @ dom_requirements @ prompt_end s)))"

section \<open>The remote content fetcher\<close>

text \<open>
  What \<open>getADOContext\<close> reads from the page address, and the parts of the REST
  responses that \<open>extractFromADOApi\<close> reads. A commit field holds the
  \<open>commitId\<close> that \<open>lastIteration.sourceRefCommit?.commitId\<close> finds (\<open>None\<close>
  for \<open>undefined\<close>).
\<close>

record ado_context =
  org :: js_string
  project :: js_string
  repo :: js_string
  prId :: js_string
  isLegacy :: bool

record iteration =
  iteration_id :: nat
  sourceRefCommit :: "js_string option"
  commonRefCommit :: "js_string option"
  targetRefCommit :: "js_string option"

record item =
  isFolder :: bool
  path :: "js_string option"

text \<open>
  A change entry. The source reads \<open>change.item || change\<close>: an entry without an
  \<open>item\<close> is read as the item itself, so it has \<open>isFolder\<close> and \<open>path\<close> too.
\<close>

record change =
  item :: "item option"
  isFolder :: bool
  path :: "js_string option"
  changeType :: "js_string option"

record iterations =
  iterations_value :: "iteration list option"

record changes =
  changeEntries :: "change list option"
  changes_value :: "change list option"

text \<open>
  A response of \<open>fetch\<close>: its \<open>ok\<close> flag and the value of \<open>response.json()\<close>,
  \<open>None\<close> when that call throws.
\<close>

record 'a response =
  ok :: bool
  body :: "'a option"

text \<open>
  The remote side as \<open>extractFromADOApi\<close> sees it. A response is \<open>None\<close> when
  \<open>fetch\<close> itself throws. \<open>fetchFileContentByPath\<close> catches every error and
  returns a string; its result may differ from call to call, so it is given the number
  of calls made before, then the path and the commit.
\<close>

record ado_api =
  getADOContext :: "ado_context option"
  iterationsResponse :: "iterations response option"
  changesResponse :: "changes response option"
  fetchFileContentByPath :: "nat \<Rightarrow> js_string \<Rightarrow> js_string \<Rightarrow> js_string"

definition binaryExtensions :: "js_string list" where
  "binaryExtensions =
     [js ''.png'', js ''.jpg'', js ''.jpeg'', js ''.gif'', js ''.ico'', js ''.pdf'', js ''.zip'',
      js ''.dll'', js ''.exe'', js ''.woff'', js ''.woff2'', js ''.ttf'', js ''.svg'']"

definition MAX_FILE_SIZE :: nat where
  "MAX_FILE_SIZE = 50000"

definition MAX_FILES :: nat where
  "MAX_FILES = 15"

text \<open>Truthiness of a string that may be \<open>undefined\<close>.\<close>

definition truthy_string :: "js_string option \<Rightarrow> bool" where
  "truthy_string v \<longleftrightarrow> (case v of None \<Rightarrow> False | Some t \<Rightarrow> t \<noteq> [])"

text \<open>\<open>a || b\<close> on such strings.\<close>

definition or_else :: "js_string option \<Rightarrow> js_string option \<Rightarrow> js_string option" where
  "or_else a b = (if truthy_string a then a else b)"

definition api_diff :: "js_string \<Rightarrow> js_string \<Rightarrow> js_string \<Rightarrow> js_string \<Rightarrow> diff" where
  "api_diff filePath original new ct =
     \<lparr>filename = filePath, content = None, additions = None, deletions = None,
      hasNewCode = None, isSelection = False, isApiDiff = True,
      originalContent = Some original, newContent = Some new, changeType = Some ct,
      element = None\<rparr>"

text \<open>
  The loop over \<open>changesList\<close>. \<open>n\<close> counts the calls of
  \<open>fetchFileContentByPath\<close> so far and \<open>diffs\<close> is the array being filled.
\<close>

fun fetch_changes ::
  "(nat \<Rightarrow> js_string \<Rightarrow> js_string \<Rightarrow> js_string) \<Rightarrow> js_string option \<Rightarrow> js_string option \<Rightarrow>
   change list \<Rightarrow> nat \<Rightarrow> diff list \<Rightarrow> diff list" where
  "fetch_changes fetch sourceCommit targetCommit [] n diffs = diffs"
| "fetch_changes fetch sourceCommit targetCommit (c # cs) n diffs =
     (if MAX_FILES \<le> length diffs then diffs
      else if (case change.item c of Some i \<Rightarrow> item.isFolder i | None \<Rightarrow> change.isFolder c)
      then fetch_changes fetch sourceCommit targetCommit cs n diffs
      else
        (let ct = (if truthy_string (change.changeType c)
                   then or_empty (change.changeType c) else js ''edit'');
             filePath = (case change.item c of Some i \<Rightarrow> item.path i | None \<Rightarrow> change.path c)
         in if ct = js ''delete'' then fetch_changes fetch sourceCommit targetCommit cs n diffs
            else if \<not> truthy_string filePath
            then fetch_changes fetch sourceCommit targetCommit cs n diffs
            else if list_ex (\<lambda>ext. endsWith (toLowerCase (or_empty filePath)) ext) binaryExtensions
            then fetch_changes fetch sourceCommit targetCommit cs n diffs
            else
              (let new = (if truthy_string sourceCommit
                          then fetch n (or_empty filePath) (or_empty sourceCommit) else []);
                   n1 = (if truthy_string sourceCommit then Suc n else n)
               in if truthy_string sourceCommit \<and> MAX_FILE_SIZE < length new
                  then fetch_changes fetch sourceCommit targetCommit cs n1 diffs
                  else
                    (let fetch_original = (ct \<noteq> js ''add'' \<and> truthy_string targetCommit);
                         original = (if fetch_original
                                     then fetch n1 (or_empty filePath) (or_empty targetCommit)
                                     else []);
                         n2 = (if fetch_original then Suc n1 else n1)
                     in fetch_changes fetch sourceCommit targetCommit cs n2
                          (if new \<noteq> []
                           then diffs @ [api_diff (or_empty filePath) original new ct]
                           else diffs)))))"

text \<open>
  \<open>extractFromADOApi\<close>. Every early \<open>return []\<close> of the source is a branch, and
  so is the \<open>catch\<close> of a failed \<open>fetch\<close> or \<open>json()\<close>. \<open>changesList\<close> is
  \<open>changes.changeEntries || changes.value || []\<close>.
\<close>

definition changesList :: "changes \<Rightarrow> change list" where
  "changesList chs =
     (case changeEntries chs of
        Some l \<Rightarrow> l
      | None \<Rightarrow> (case changes_value chs of Some l \<Rightarrow> l | None \<Rightarrow> []))"

definition extractFromADOApi :: "ado_api \<Rightarrow> diff list" where
  "extractFromADOApi api =
     (case getADOContext api of
        None \<Rightarrow> []
      | Some ctx \<Rightarrow>
          (case iterationsResponse api of
             None \<Rightarrow> []
           | Some ir \<Rightarrow>
               if \<not> ok ir then []
               else
                 (case body ir of
                    None \<Rightarrow> []
                  | Some its \<Rightarrow>
                      (case iterations_value its of
                         None \<Rightarrow> []
                       | Some v \<Rightarrow>
                           if length v = 0 then []
                           else
                             (let lastIteration = last v;
                                  sourceCommit = sourceRefCommit lastIteration;
                                  targetCommit = or_else (commonRefCommit lastIteration)
                                                   (targetRefCommit lastIteration)
                              in (case changesResponse api of
                                    None \<Rightarrow> []
                                  | Some cr \<Rightarrow>
                                      if \<not> ok cr then []
                                      else
                                        (case body cr of
                                           None \<Rightarrow> []
                                         | Some chs \<Rightarrow>
                                             fetch_changes (fetchFileContentByPath api)
                                               sourceCommit targetCommit (changesList chs)
                                               0 [])))))))"

section \<open>The extraction strategy chain\<close>

text \<open>
  The page as \<open>extractDiffs\<close> reads it: the text of the user's selection, the
  remote side, and what each of the six page-scanning strategies returns on it.
\<close>

record page =
  getSelection :: js_string
  adoApi :: ado_api
  extractFromSideBySideView :: "diff list"
  extractFromModernViewer :: "diff list"
  extractFromFileDiffContainers :: "diff list"
  extractFromMonacoEditor :: "diff list"
  extractFromGenericCodeBlocks :: "diff list"
  extractFromVisibleDiffArea :: "diff list"

text \<open>The strategies, to record which of them a call of \<open>extractDiffs\<close> tried.\<close>

datatype strategy =
    Selection
  | ADOApi
  | SideBySideView
  | ModernViewer
  | FileDiffContainers
  | MonacoEditor
  | GenericCodeBlocks
  | VisibleDiffArea

definition selection_diff :: "js_string \<Rightarrow> diff" where
  "selection_diff selection =
     \<lparr>filename = js ''Selected Code'', content = Some selection, additions = None,
      deletions = None, hasNewCode = None, isSelection = True, isApiDiff = False,
      originalContent = None, newContent = None, changeType = None, element = None\<rparr>"

text \<open>
  \<open>type === 'current' ? [extractedDiffs[0]] : extractedDiffs\<close>, where
  \<open>extractedDiffs\<close> is not empty.
\<close>

definition scoped :: "js_string \<Rightarrow> diff list \<Rightarrow> diff list" where
  "scoped type extractedDiffs =
     (if type = js ''current'' then take 1 extractedDiffs else extractedDiffs)"

text \<open>
  \<open>extractDiffs\<close> returns the records and, beside them, the strategies it tried, in
  the order it tried them.
\<close>

definition extractDiffs :: "js_string \<Rightarrow> page \<Rightarrow> diff list \<times> strategy list" where
  "extractDiffs type p =
     (if type = js ''selected'' \<and> getSelection p \<noteq> [] \<and> trim (getSelection p) \<noteq> []
      then ([selection_diff (getSelection p)], [Selection])
      else
        (let tried = (if type = js ''selected'' then [Selection] else [ADOApi]);
             api = (if type \<noteq> js ''selected'' then extractFromADOApi (adoApi p) else [])
         in if type \<noteq> js ''selected'' \<and> 0 < length api then (scoped type api, tried)
            else if 0 < length (extractFromSideBySideView p)
            then (scoped type (extractFromSideBySideView p), tried @ [SideBySideView])
            else if 0 < length (extractFromModernViewer p)
            then (scoped type (extractFromModernViewer p), tried @ [SideBySideView, ModernViewer])
            else if 0 < length (extractFromFileDiffContainers p)
            then (scoped type (extractFromFileDiffContainers p),
                  tried @ [SideBySideView, ModernViewer, FileDiffContainers])
            else if 0 < length (extractFromMonacoEditor p)
            then (scoped type (extractFromMonacoEditor p),
                  tried @ [SideBySideView, ModernViewer, FileDiffContainers, MonacoEditor])
            else if 0 < length (extractFromGenericCodeBlocks p)
            then (scoped type (extractFromGenericCodeBlocks p),
                  tried @ [SideBySideView, ModernViewer, FileDiffContainers, MonacoEditor,
                         GenericCodeBlocks])
            else if 0 < length (extractFromVisibleDiffArea p)
            then (scoped type (extractFromVisibleDiffArea p),
                  tried @ [SideBySideView, ModernViewer, FileDiffContainers, MonacoEditor,
                         GenericCodeBlocks, VisibleDiffArea])
            else ([], tried @ [SideBySideView, ModernViewer, FileDiffContainers, MonacoEditor,
                             GenericCodeBlocks, VisibleDiffArea])))"

section \<open>The review orchestrator\<close>

record stats =
  files :: nat
  critical :: nat
  warnings :: nat
  suggestions :: nat

text \<open>
  The state of the content script that \<open>handleReview\<close> reads and writes: the two
  variables \<open>isReviewing\<close> and \<open>currentSettings\<close>, the entry \<open>reviewStats\<close> of
  \<open>chrome.storage.local\<close>, and the effects on the page (the notifications shown,
  the results given to \<open>displayIssues\<close>, the extraction strategies run and the
  number of calls of the model), each as a log in the order of the calls.
\<close>

record reviewer_state =
  isReviewing :: bool
  currentSettings :: "settings option"
  reviewStats :: "stats option"
  notifications :: "(js_string \<times> js_string) list"
  displayed :: "(diff \<times> review_result) list"
  invoked :: "strategy list"
  geminiCalls :: nat

text \<open>
  What \<open>handleReview\<close> meets outside: the page, the remote model
  (\<open>callGeminiAPI\<close> returns the text or throws; it is given the number of calls made
  before, the prompt, the key and the model name) and the rendering of
  \<open>displayIssues\<close>, which may throw on a result it cannot render.
\<close>

record world =
  page :: page
  callGeminiAPI :: "nat \<Rightarrow> js_string \<Rightarrow> js_string \<Rightarrow> js_string \<Rightarrow> js_error + js_string"
  displayIssues_error :: "diff \<Rightarrow> review_result \<Rightarrow> js_error option"

text \<open>The reply: \<open>{ success: true, issueCount }\<close> or \<open>{ success: false, error }\<close>.\<close>

datatype reply =
    Success nat
  | Failure js_string

text \<open>
  \<open>error.message\<close>. The message of an error the engine raises is
  implementation-defined; the model gives the error's name.
\<close>

fun message :: "js_error \<Rightarrow> js_string" where
  "message (Error m) = m"
| "message TypeError = js ''TypeError''"
| "message SyntaxError = js ''SyntaxError''"

definition showNotification :: "js_string \<Rightarrow> js_string \<Rightarrow> reviewer_state \<Rightarrow> reviewer_state" where
  "showNotification msg kind st = st\<lparr>notifications := notifications st @ [(msg, kind)]\<rparr>"

text \<open>
  \<open>issue.severity\<close>: reading a property of \<open>null\<close> throws; a number, string,
  boolean or array has no such property.
\<close>

fun issue_severity :: "json \<Rightarrow> js_error + json option" where
  "issue_severity JNull = Inl TypeError"
| "issue_severity (JObject kvs) = Inr (get_prop (js ''severity'') kvs)"
| "issue_severity v = Inr None"

text \<open>The body of the \<open>forEach\<close> callback, after the property is read.\<close>

definition count_severity :: "stats \<Rightarrow> json option \<Rightarrow> stats" where
  "count_severity st sev =
     (if sev = Some (JString (js ''critical'')) then st\<lparr>critical := critical st + 1\<rparr>
      else if sev = Some (JString (js ''warning'')) then st\<lparr>warnings := warnings st + 1\<rparr>
      else st\<lparr>suggestions := suggestions st + 1\<rparr>)"

text \<open>\<open>issues.forEach(...)\<close>: it stops at the first issue whose callback throws.\<close>

fun count_issues :: "stats \<Rightarrow> json list \<Rightarrow> js_error + stats" where
  "count_issues st [] = Inr st"
| "count_issues st (issue # rest) =
     (case issue_severity issue of
        Inl e \<Rightarrow> Inl e
      | Inr sev \<Rightarrow> count_issues (count_severity st sev) rest)"

text \<open>
  \<open>reviewResult.issues || []\<close> as the array that \<open>.length\<close> and \<open>forEach\<close> are
  applied to. \<open>parseReviewResponse\<close> only stores arrays there; for a value that is
  no array the model takes the empty array when it is falsy and raises otherwise.
\<close>

definition issues_array :: "review_result \<Rightarrow> js_error + json list" where
  "issues_array r =
     (case issues r of
        JArray xs \<Rightarrow> Inr xs
      | v \<Rightarrow> if truthy v then Inl TypeError else Inr [])"

text \<open>\<open>reviewDiff\<close>: build the prompt, call the model, parse its text.\<close>

definition reviewDiff ::
  "world \<Rightarrow> nat \<Rightarrow> diff \<Rightarrow> settings \<Rightarrow> js_error + review_result" where
  "reviewDiff w n d s =
     (case buildReviewPrompt d s of
        Inl e \<Rightarrow> Inl e
      | Inr prompt \<Rightarrow>
          (case callGeminiAPI w n prompt (apiKey s) (model s) of
             Inl e \<Rightarrow> Inl e
           | Inr response \<Rightarrow> parseReviewResponse response))"

text \<open>
  The loop \<open>for (const diff of diffs)\<close>, with \<open>totalIssues\<close> and \<open>stats\<close>. An
  error leaves the loop with the state as it is then.
\<close>

fun review_loop ::
  "world \<Rightarrow> settings \<Rightarrow> diff list \<Rightarrow> reviewer_state \<Rightarrow> nat \<Rightarrow> stats \<Rightarrow>
   reviewer_state \<times> (js_error + nat \<times> stats)" where
  "review_loop w s [] st totalIssues sts = (st, Inr (totalIssues, sts))"
| "review_loop w s (d # ds) st totalIssues sts =
     (let st1 = st\<lparr>geminiCalls := Suc (geminiCalls st)\<rparr>
      in case reviewDiff w (geminiCalls st) d s of
           Inl e \<Rightarrow> (st1, Inl e)
         | Inr reviewResult \<Rightarrow>
             (case issues_array reviewResult of
                Inl e \<Rightarrow> (st1, Inl e)
              | Inr is \<Rightarrow>
                  if truthy (summary reviewResult) \<or> 0 < length is then
                    (case count_issues sts is of
                       Inl e \<Rightarrow> (st1, Inl e)
                     | Inr sts' \<Rightarrow>
                         (let st2 = st1\<lparr>displayed := displayed st1 @ [(d, reviewResult)]\<rparr>
                          in case displayIssues_error w d reviewResult of
                               Some e \<Rightarrow> (st2, Inl e)
                             | None \<Rightarrow> review_loop w s ds st2 (totalIssues + length is) sts'))
                  else review_loop w s ds st1 totalIssues sts))"

text \<open>The texts of the notifications; the first code units are the emoji.\<close>

definition starting_message :: js_string where
  "starting_message = [0xD83D, 0xDD0D] @ js '' Starting AI code review...''"

definition reviewing_message :: "nat \<Rightarrow> js_string" where
  "reviewing_message n = [0xD83D, 0xDCDD] @ js '' Reviewing '' @ show_nat n @ js '' file(s)...''"

definition complete_message :: "nat \<Rightarrow> js_string" where
  "complete_message n =
     [0x2705] @ js '' Review complete! Found '' @ show_nat n @ js '' issue(s)''"

definition failed_message :: "js_string \<Rightarrow> js_string" where
  "failed_message m = [0x274C] @ js '' Review failed: '' @ m"

text \<open>
  \<open>handleReview\<close>. The \<open>finally\<close> block clears \<open>isReviewing\<close> on every path
  that entered the \<open>try\<close>.
\<close>

definition handleReview ::
  "js_string \<Rightarrow> settings \<Rightarrow> world \<Rightarrow> reviewer_state \<Rightarrow> reply \<times> reviewer_state" where
  "handleReview type s w st =
     (if isReviewing st then (Failure (js ''Review already in progress''), st)
      else
        (let st1 = st\<lparr>isReviewing := True, currentSettings := Some s\<rparr>;
             st2 = showNotification starting_message (js ''info'') st1;
             diffs = fst (extractDiffs type (page w));
             st3 = st2\<lparr>invoked := invoked st2 @ snd (extractDiffs type (page w))\<rparr>
         in if length diffs = 0
            then (Failure (js ''No code changes found to review''), st3\<lparr>isReviewing := False\<rparr>)
            else
              (let st4 = showNotification (reviewing_message (length diffs)) (js ''info'') st3
               in case review_loop w s diffs st4 0
                         \<lparr>files = length diffs, critical = 0, warnings = 0, suggestions = 0\<rparr> of
                    (st5, Inl e) \<Rightarrow>
                      (Failure (message e),
                       (showNotification (failed_message (message e)) (js ''error'') st5)
                         \<lparr>isReviewing := False\<rparr>)
                  | (st5, Inr (totalIssues, sts)) \<Rightarrow>
                      (Success totalIssues,
                       (showNotification (complete_message totalIssues) (js ''success'')
                          (st5\<lparr>reviewStats := Some sts\<rparr>))
                         \<lparr>isReviewing := False\<rparr>))))"

section \<open>Notions used in the statements\<close>

text \<open>Shapes of a JSON value.\<close>

fun is_array :: "json \<Rightarrow> bool" where
  "is_array (JArray xs) = True"
| "is_array v = False"

fun is_scalar :: "json \<Rightarrow> bool" where
  "is_scalar (JArray xs) = False"
| "is_scalar (JObject kvs) = False"
| "is_scalar v = True"

text \<open>
  An invariant of the parser: the outermost open container is an array, or the
  finished value is one.
\<close>

fun array_frame :: "frame \<Rightarrow> bool" where
  "array_frame (ArrFrame xs) = True"
| "array_frame (ObjFrame kvs k) = False"

fun array_at_bottom :: "pstate \<Rightarrow> bool" where
  "array_at_bottom (Done v) = is_array v"
| "array_at_bottom (Running fs e) = (fs \<noteq> [] \<and> array_frame (last fs))"

text \<open>\<open>v\<close> is the \<open>summary\<close> member of the object that \<open>text\<close> parses to.\<close>

definition parsed_summary :: "js_string \<Rightarrow> json \<Rightarrow> bool" where
  "parsed_summary text v \<longleftrightarrow>
     (\<exists>kvs. JSON_parse text = Some (JObject kvs) \<and> get_prop (js ''summary'') kvs = Some v)"

text \<open>A record of the fetcher with non-empty new content of at most 50000 code units.\<close>

definition good_record :: "diff \<Rightarrow> bool" where
  "good_record d \<longleftrightarrow> (case newContent d of None \<Rightarrow> False | Some c \<Rightarrow> c \<noteq> [] \<and> length c \<le> 50000)"

text \<open>
  The chain as the specification words it: an ordered list of strategies with their
  outputs, and a reducer in which the first non-empty output wins. The reducer
  returns that output and the strategies consulted up to and including the winner.
  \<open>dom_outputs\<close> are the six page-scanning strategies in their order;
  \<open>strategy_outputs\<close> puts in front the one strategy that the scope admits: the
  selection for \<open>selected\<close> (an output only if the selection is not blank), the
  remote API otherwise.
\<close>

definition dom_outputs :: "page \<Rightarrow> (strategy \<times> diff list) list" where
  "dom_outputs p =
     [(SideBySideView, extractFromSideBySideView p),
      (ModernViewer, extractFromModernViewer p),
      (FileDiffContainers, extractFromFileDiffContainers p),
      (MonacoEditor, extractFromMonacoEditor p),
      (GenericCodeBlocks, extractFromGenericCodeBlocks p),
      (VisibleDiffArea, extractFromVisibleDiffArea p)]"

definition selection_output :: "page \<Rightarrow> diff list" where
  "selection_output p =
     (if trim (getSelection p) \<noteq> [] then [selection_diff (getSelection p)] else [])"

definition strategy_outputs :: "js_string \<Rightarrow> page \<Rightarrow> (strategy \<times> diff list) list" where
  "strategy_outputs type p =
     (if type = js ''selected'' then (Selection, selection_output p)
      else (ADOApi, extractFromADOApi (adoApi p))) # dom_outputs p"

fun first_nonempty :: "(strategy \<times> diff list) list \<Rightarrow> diff list \<times> strategy list" where
  "first_nonempty [] = ([], [])"
| "first_nonempty ((s, out) # rest) =
     (if out \<noteq> [] then (out, [s])
      else (fst (first_nonempty rest), s # snd (first_nonempty rest)))"

text \<open>An issue whose \<open>severity\<close> is exactly the string \<open>name\<close>.\<close>

definition has_severity :: "js_string \<Rightarrow> json \<Rightarrow> bool" where
  "has_severity name issue \<longleftrightarrow> issue_severity issue = Inr (Some (JString name))"

text \<open>
  For each record of a pass, in order, the length of the \<open>issues\<close> array parsed
  from the model's answer to it; \<open>n\<close> is the number of model calls made before.
\<close>

fun parsed_issue_counts :: "world \<Rightarrow> settings \<Rightarrow> nat \<Rightarrow> diff list \<Rightarrow> nat list" where
  "parsed_issue_counts w s n [] = []"
| "parsed_issue_counts w s n (d # ds) =
     (case reviewDiff w n d s of
        Inr r \<Rightarrow> (case issues r of JArray xs \<Rightarrow> length xs | _ \<Rightarrow> 0)
      | Inl e \<Rightarrow> 0) # parsed_issue_counts w s (Suc n) ds"

section \<open>Example inputs\<close>

definition example_settings :: settings where
  "example_settings =
     \<lparr>apiKey = js ''key'', model = js ''gemini-2.5-flash-lite'', reviewDepth = js ''standard'',
      focusAreas = \<lparr>bugs = True, security = True, performance = True, style = True,
                    naming = False, docs = False, tests = False\<rparr>\<rparr>"

definition plain_record :: "js_string \<Rightarrow> js_string \<Rightarrow> diff" where
  "plain_record name text =
     \<lparr>filename = name, content = Some text, additions = None, deletions = None,
      hasNewCode = None, isSelection = False, isApiDiff = False, originalContent = None,
      newContent = None, changeType = None, element = Some 0\<rparr>"

definition record_a :: diff where
  "record_a = plain_record (js ''a.js'') (js ''let a = 1;'')"

definition record_b :: diff where
  "record_b = plain_record (js ''b.js'') (js ''let b = 2;'')"

definition offline_api :: ado_api where
  "offline_api =
     \<lparr>getADOContext = None, iterationsResponse = None, changesResponse = None,
      fetchFileContentByPath = (\<lambda>n p c. [])\<rparr>"

definition one_file_api :: ado_api where
  "one_file_api =
     \<lparr>getADOContext =
        Some \<lparr>org = js ''org'', project = js ''proj'', repo = js ''repo'', prId = js ''7'',
              isLegacy = False\<rparr>,
      iterationsResponse =
        Some \<lparr>ok = True,
              body = Some \<lparr>iterations_value =
                Some [\<lparr>iteration_id = 1, sourceRefCommit = Some (js ''c2''),
                       commonRefCommit = Some (js ''c1''), targetRefCommit = None\<rparr>]\<rparr>\<rparr>,
      changesResponse =
        Some \<lparr>ok = True,
              body = Some \<lparr>changeEntries =
                Some [\<lparr>change.item = Some \<lparr>item.isFolder = False, item.path = Some (js ''/src/a.js'')\<rparr>,
                       change.isFolder = False, change.path = None,
                       change.changeType = Some (js ''edit'')\<rparr>],
                changes_value = None\<rparr>\<rparr>,
      fetchFileContentByPath =
        (\<lambda>n p c. if c = js ''c2'' then js ''let a = 2;'' else js ''let a = 1;'')\<rparr>"

definition side_by_side_page :: page where
  "side_by_side_page =
     \<lparr>getSelection = [], adoApi = offline_api,
      extractFromSideBySideView = [record_a, record_b], extractFromModernViewer = [],
      extractFromFileDiffContainers = [], extractFromMonacoEditor = [],
      extractFromGenericCodeBlocks = [], extractFromVisibleDiffArea = []\<rparr>"

definition api_only_page :: page where
  "api_only_page =
     \<lparr>getSelection = [], adoApi = one_file_api,
      extractFromSideBySideView = [], extractFromModernViewer = [],
      extractFromFileDiffContainers = [], extractFromMonacoEditor = [],
      extractFromGenericCodeBlocks = [], extractFromVisibleDiffArea = []\<rparr>"

definition selection_page :: page where
  "selection_page = side_by_side_page\<lparr>getSelection := js ''x = 1''\<rparr>"

definition two_issue_response :: js_string where
  \<open>two_issue_response = js ''{"issues":[{"severity":"critical"},{"severity":"minor"}]}''\<close>

definition example_world :: world where
  "example_world =
     \<lparr>page = side_by_side_page,
      callGeminiAPI = (\<lambda>n prompt key name. Inr two_issue_response),
      displayIssues_error = (\<lambda>d r. None)\<rparr>"

definition idle_state :: reviewer_state where
  "idle_state =
     \<lparr>isReviewing = False, currentSettings = None, reviewStats = None, notifications = [],
      displayed = [], invoked = [], geminiCalls = 0\<rparr>"

definition busy_state :: reviewer_state where
  "busy_state = idle_state\<lparr>isReviewing := True\<rparr>"

definition example_issues :: "json list" where
  "example_issues =
     [JObject [(js ''severity'', JString (js ''critical''))],
      JObject [(js ''severity'', JString (js ''warning''))],
      JObject [(js ''severity'', JString (js ''minor''))],
      JObject [(js ''line'', JNumber False 3 0)],
      JNumber False 7 0]"

section \<open>Properties of the response parser\<close>

lemmas js_defs = js_def cu_def LF_def is_js_whitespace_def trimEnd_def trim_def
  is_json_ws_def is_digit_def is_letter_def is_word_char_def digits_val_def
  parse_exponent_def parse_fraction_def parse_number_def word_token_def punctuation_def
  hex_val_def lex_start_def lex_escape_def JSON_parse_def get_prop_def
  strip_json_fence_start_def strip_fence_start_def strip_fence_end_def clean_response_def
  match_span_def summary_or_null_def issues_or_empty_def try_block_def try_object_span_def
  try_array_span_def catch_block_def parseReviewResponse_def lower_ascii_def

subsection \<open>A text that starts with a bracket parses to an array\<close>

lemma deliver_array_at_bottom:
  "fs \<noteq> [] \<Longrightarrow> array_frame (last fs) \<Longrightarrow> deliver fs v = Some st' \<Longrightarrow> array_at_bottom st'"
  by (induction fs v rule: deliver.induct) (auto split: if_splits)

lemma begin_value_array_at_bottom:
  "fs \<noteq> [] \<Longrightarrow> array_frame (last fs) \<Longrightarrow> begin_value fs t = Some st' \<Longrightarrow> array_at_bottom st'"
  by (cases t) (auto dest: deliver_array_at_bottom)

lemma close_array_array_at_bottom:
  assumes "fs \<noteq> []" and "array_frame (last fs)" and "close_array fs = Some st'"
  shows "array_at_bottom st'"
proof (cases fs)
  case Nil
  with assms(1) show ?thesis by simp
next
  case (Cons f fs')
  with assms(3) obtain xs where d: "deliver fs' (JArray xs) = Some st'"
    by (cases f) auto
  show ?thesis
  proof (cases "fs' = []")
    case True
    with d show ?thesis by auto
  next
    case False
    with assms(2) Cons have "array_frame (last fs')" by simp
    from deliver_array_at_bottom [OF False this d] show ?thesis .
  qed
qed

lemma close_object_array_at_bottom:
  assumes "fs \<noteq> []" and "array_frame (last fs)" and "close_object fs = Some st'"
  shows "array_at_bottom st'"
proof (cases fs)
  case Nil
  with assms(1) show ?thesis by simp
next
  case (Cons f fs')
  with assms(3) obtain kvs where f: "f = ObjFrame kvs None"
    and d: "deliver fs' (JObject kvs) = Some st'"
    by (cases f rule: array_frame.cases) (auto elim: close_object.elims)
  from assms(2) Cons f have ne: "fs' \<noteq> []" and "array_frame (last fs')"
    by (auto split: if_splits)
  from deliver_array_at_bottom [OF this d] show ?thesis .
qed

lemma take_key_array_at_bottom:
  "fs \<noteq> [] \<Longrightarrow> array_frame (last fs) \<Longrightarrow> take_key fs k = Some st' \<Longrightarrow> array_at_bottom st'"
  by (induction fs k rule: take_key.induct) (auto split: if_splits)

lemma after_comma_array_at_bottom:
  "fs \<noteq> [] \<Longrightarrow> array_frame (last fs) \<Longrightarrow> after_comma fs = Some st' \<Longrightarrow> array_at_bottom st'"
  by (induction fs rule: after_comma.induct) (auto split: if_splits)

lemma parse_step_array_at_bottom:
  "array_at_bottom st \<Longrightarrow> parse_step st t = Some st' \<Longrightarrow> array_at_bottom st'"
proof (cases st)
  case (Done v)
  assume "parse_step st t = Some st'"
  with Done show ?thesis by simp
next
  case (Running fs e)
  assume "array_at_bottom st" and step: "parse_step st t = Some st'"
  with Running have fs: "fs \<noteq> []" "array_frame (last fs)" by simp_all
  from step Running show ?thesis
    by (cases e; cases t)
       (auto split: if_splits
          dest: begin_value_array_at_bottom [OF fs] close_array_array_at_bottom [OF fs]
            deliver_array_at_bottom [OF fs]
            close_object_array_at_bottom [OF fs] take_key_array_at_bottom [OF fs]
            after_comma_array_at_bottom [OF fs] simp add: fs)
qed

lemma parse_tokens_array_at_bottom:
  "array_at_bottom st \<Longrightarrow> parse_tokens st ts = Some v \<Longrightarrow> is_array v"
proof (induction ts arbitrary: st)
  case Nil
  then show ?case by (cases st) simp_all
next
  case (Cons t ts)
  then show ?case
    by (cases "parse_step st t") (auto dest: parse_step_array_at_bottom)
qed

lemma JSON_parse_bracket_is_array:
  assumes "JSON_parse (0x5B # cs) = Some v"
  shows "is_array v"
proof -
  from assms obtain ts where ts: "tokenize LStart cs = Some ts"
    and p: "parse_tokens (Running [] EValue) (TLBracket # ts) = Some v"
    by (auto simp add: JSON_parse_def lex_start_def punctuation_def is_json_ws_def
        split: option.splits)
  from p have "parse_tokens (Running [ArrFrame []] EValueOrClose) ts = Some v" by simp
  then show ?thesis
    by (rule parse_tokens_array_at_bottom [rotated]) simp
qed

lemma match_span_starts:
  assumes "match_span opening closing s = Some span"
  shows "\<exists>rest. span = opening # rest"
proof -
  let ?from = "dropWhile (\<lambda>c. c \<noteq> opening) s"
  from assms have ne: "?from \<noteq> []"
    and span: "span = rev (dropWhile (\<lambda>c. c \<noteq> closing) (rev ?from))" and "span \<noteq> []"
    by (auto simp add: match_span_def Let_def split: if_splits)
  from ne have "hd ?from = opening"
    using hd_dropWhile [of "\<lambda>c. c \<noteq> opening" s] by simp
  with ne obtain t where t: "?from = opening # t"
    by (cases ?from) auto
  show ?thesis
  proof (cases "\<forall>x \<in> set (rev t). x \<noteq> closing")
    case True
    then have "dropWhile (\<lambda>c. c \<noteq> closing) (rev t @ [opening]) = dropWhile (\<lambda>c. c \<noteq> closing) [opening]"
      by (simp add: dropWhile_append)
    with span t \<open>span \<noteq> []\<close> show ?thesis by (auto split: if_splits)
  next
    case False
    then have "dropWhile (\<lambda>c. c \<noteq> closing) (rev t @ [opening]) = dropWhile (\<lambda>c. c \<noteq> closing) (rev t) @ [opening]"
      by (auto simp add: dropWhile_append)
    with span t show ?thesis by simp
  qed
qed

lemma try_array_span_is_array:
  "match_span 0x5B 0x5D response = Some span \<Longrightarrow> try_array_span span = Inr r \<Longrightarrow> is_array (issues r)"
  by (auto simp add: try_array_span_def split: option.splits
      dest!: match_span_starts dest: JSON_parse_bracket_is_array)

lemma issues_or_empty_is_array: "is_array (issues_or_empty kvs)"
  by (simp add: issues_or_empty_def split: option.splits json.splits)

lemma summary_or_null_cases:
  "JSON_parse text = Some (JObject kvs) \<Longrightarrow>
   summary_or_null kvs = JNull \<or> parsed_summary text (summary_or_null kvs)"
  by (auto simp add: summary_or_null_def parsed_summary_def split: option.splits)

lemma try_block_shape:
  "try_block response = Inr r \<Longrightarrow>
   is_array (issues r) \<and> (summary r = JNull \<or> parsed_summary (clean_response response) (summary r))"
  by (auto simp add: try_block_def issues_or_empty_is_array
      split: option.splits json.splits dest: summary_or_null_cases)

lemma try_object_span_shape:
  "try_object_span span = Inr r \<Longrightarrow>
   is_array (issues r) \<and> (summary r = JNull \<or> parsed_summary span (summary r))"
  by (auto simp add: try_object_span_def issues_or_empty_is_array
      split: option.splits json.splits dest: summary_or_null_cases)

text \<open>
  Claim C3. For every input string \<open>parseReviewResponse\<close> returns (it raises
  nothing), the \<open>issues\<close> of the result are an array, and its \<open>summary\<close> is
  \<open>null\<close> or the \<open>summary\<close> member of the object that was parsed: the cleaned
  text in the \<open>try\<close> block, the object span in the \<open>catch\<close> block.
\<close>

theorem parseReviewResponse_never_throws:
  "\<exists>r. parseReviewResponse response = Inr r \<and> is_array (issues r) \<and>
        (summary r = JNull \<or> parsed_summary (clean_response response) (summary r) \<or>
         (\<exists>span. match_span 0x7B 0x7D response = Some span \<and> parsed_summary span (summary r)))"
proof (cases "try_block response")
  case (Inr r)
  with try_block_shape [OF Inr] show ?thesis
    by (auto simp add: parseReviewResponse_def)
next
  case (Inl e)
  note tb = Inl
  show ?thesis
  proof (cases "match_span 0x7B 0x7D response")
    case None
    show ?thesis
    proof (cases "match_span 0x5B 0x5D response")
      case None
      with \<open>match_span 0x7B 0x7D response = None\<close> tb show ?thesis
        by (simp add: parseReviewResponse_def catch_block_def)
    next
      case (Some span)
      with \<open>match_span 0x7B 0x7D response = None\<close> tb try_array_span_is_array [OF Some]
      show ?thesis
        by (cases "try_array_span span")
           (auto simp add: parseReviewResponse_def catch_block_def try_array_span_def
              split: option.splits)
    qed
  next
    case (Some ospan)
    show ?thesis
    proof (cases "try_object_span ospan")
      case (Inr r)
      with Some tb try_object_span_shape [OF Inr] show ?thesis
        by (auto simp add: parseReviewResponse_def catch_block_def)
    next
      case (Inl e')
      show ?thesis
      proof (cases "match_span 0x5B 0x5D response")
        case None
        with Some Inl tb show ?thesis
          by (simp add: parseReviewResponse_def catch_block_def)
      next
        case (Some span)
        with \<open>match_span 0x7B 0x7D response = Some ospan\<close> Inl tb
          try_array_span_is_array [OF Some]
        show ?thesis
          by (cases "try_array_span span")
             (auto simp add: parseReviewResponse_def catch_block_def try_array_span_def
                split: option.splits)
      qed
    qed
  qed
qed

text \<open>The theorem at a text with no JSON in it.\<close>

theorem parseReviewResponse_never_throws_witness:
  "parseReviewResponse (js ''LGTM'') = Inr \<lparr>summary = JNull, issues = JArray []\<rparr>"
  using parseReviewResponse_never_throws [of "js ''LGTM''"]
  by (simp add: js_defs)

subsection \<open>Cleaning keeps a text that parses\<close>

text \<open>
  A text that \<open>JSON.parse\<close> accepts has only JSON white space around its value
  and neither starts nor ends with a backtick, so trimming and the four fence
  replacements leave a text with the same value.
\<close>

lemma lex_start_whitespace:
  "is_js_whitespace c \<Longrightarrow> lex_start c = Some (st', ts) \<Longrightarrow> st' = LStart \<and> ts = []"
  by (auto simp add: is_js_whitespace_def lex_start_def is_json_ws_def punctuation_def
      is_word_char_def is_digit_def is_letter_def split: if_splits)

lemma tokenize_skip_whitespace:
  "is_js_whitespace c \<Longrightarrow> tokenize LStart (c # cs) = Some ts \<Longrightarrow> tokenize LStart cs = Some ts"
  by (cases "lex_start c") (auto dest: lex_start_whitespace)

lemma tokenize_dropWhile_whitespace:
  "tokenize LStart s = Some ts \<Longrightarrow> tokenize LStart (dropWhile is_js_whitespace s) = Some ts"
  by (induction s) (auto dest: tokenize_skip_whitespace simp del: tokenize.simps)

lemma whitespace_not_word_char: "is_js_whitespace c \<Longrightarrow> \<not> is_word_char c"
  by (auto simp add: is_js_whitespace_def is_word_char_def is_digit_def is_letter_def)

lemma lex_step_whitespace_end:
  assumes "is_js_whitespace c" and "lex_step st c = Some (st', ts')" and "lex_end st' = Some ts''"
  shows "lex_end st = Some (ts' @ ts'')"
proof (cases st)
  case LStart
  with assms lex_start_whitespace [of c st' ts'] show ?thesis by auto
next
  case (LString acc)
  with assms show ?thesis by (auto simp add: is_js_whitespace_def split: if_splits)
next
  case (LEscape acc)
  with assms show ?thesis
    by (auto simp add: is_js_whitespace_def lex_escape_def split: if_splits option.splits)
next
  case (LUnicode acc hs)
  with assms show ?thesis
    by (auto simp add: is_js_whitespace_def hex_val_def is_digit_def
        split: if_splits option.splits)
next
  case (LWord w)
  with assms whitespace_not_word_char [of c] show ?thesis
    by (auto split: if_splits option.splits dest: lex_start_whitespace)
qed

lemma tokenize_snoc_whitespace:
  "is_js_whitespace c \<Longrightarrow> tokenize st (cs @ [c]) = Some ts \<Longrightarrow> tokenize st cs = Some ts"
proof (induction cs arbitrary: st ts)
  case Nil
  then show ?case
    by (auto split: option.splits prod.splits dest: lex_step_whitespace_end)
next
  case (Cons x cs)
  then show ?case
    by (auto split: option.splits prod.splits)
qed

lemma tokenize_trimEnd:
  "tokenize st s = Some ts \<Longrightarrow> tokenize st (trimEnd s) = Some ts"
proof (induction s rule: rev_induct)
  case Nil
  then show ?case by (simp add: trimEnd_def)
next
  case (snoc x xs)
  show ?case
  proof (cases "is_js_whitespace x")
    case True
    from True snoc.prems have "tokenize st xs = Some ts" by (rule tokenize_snoc_whitespace)
    with snoc.IH True show ?thesis by (simp add: trimEnd_def)
  next
    case False
    with snoc.prems show ?thesis by (simp add: trimEnd_def)
  qed
qed

lemma tokenize_trim:
  "tokenize LStart s = Some ts \<Longrightarrow> tokenize LStart (trim s) = Some ts"
  unfolding trim_def by (intro tokenize_trimEnd tokenize_dropWhile_whitespace)

lemma tokenize_backtick_first: "tokenize LStart (0x60 # cs) = None"
  by (simp add: lex_start_def is_json_ws_def punctuation_def is_word_char_def is_digit_def
      is_letter_def)

lemma lex_step_backtick_end:
  "lex_step st 0x60 = Some (st', ts) \<Longrightarrow> lex_end st' = None"
  by (cases st)
     (auto simp add: lex_start_def is_json_ws_def punctuation_def is_word_char_def is_digit_def
        is_letter_def lex_escape_def hex_val_def split: if_splits option.splits)

lemma tokenize_backtick_last: "tokenize st (cs @ [0x60]) = None"
proof (induction cs arbitrary: st)
  case Nil
  then show ?case
    by (cases "lex_step st 0x60") (auto dest: lex_step_backtick_end)
next
  case (Cons x cs)
  then show ?case by (auto split: option.splits)
qed

lemma backtick_literal: "js ''```'' = [0x60, 0x60, 0x60]"
  by (simp add: js_def cu_def)

lemma strip_fence_start_parsed:
  assumes "tokenize LStart s = Some ts"
  shows "strip_fence_start s = s" and "strip_json_fence_start s = s"
proof -
  have "s = [] \<or> hd s \<noteq> 0x60"
    using assms tokenize_backtick_first by (cases s) auto
  then show "strip_fence_start s = s"
    by (cases s) (auto simp add: strip_fence_start_def backtick_literal)
  from \<open>s = [] \<or> hd s \<noteq> 0x60\<close> show "strip_json_fence_start s = s"
    by (cases s) (auto simp add: strip_json_fence_start_def js_def cu_def lower_ascii_def
        split: if_splits)
qed

lemma strip_fence_end_parsed:
  assumes "tokenize LStart s = Some ts"
  shows "strip_fence_end s = s"
proof -
  have "s = [] \<or> last s \<noteq> 0x60"
    using assms tokenize_backtick_last [of LStart "butlast s"]
    by (cases "s = []") (auto simp del: tokenize.simps dest: append_butlast_last_id)
  then have "rev s = [] \<or> hd (rev s) \<noteq> 0x60"
    by (auto simp add: hd_rev)
  then show ?thesis
    by (cases "rev s") (auto simp add: strip_fence_end_def backtick_literal)
qed

lemma clean_response_parsed:
  assumes "tokenize LStart response = Some ts"
  shows "clean_response response = trim response"
  using tokenize_trim [OF assms]
  by (simp add: clean_response_def strip_fence_start_parsed strip_fence_end_parsed)

lemma JSON_parse_clean_response:
  assumes "JSON_parse response = Some v"
  shows "JSON_parse (clean_response response) = Some v"
proof -
  from assms obtain ts where ts: "tokenize LStart response = Some ts"
    and p: "parse_tokens (Running [] EValue) ts = Some v"
    by (auto simp add: JSON_parse_def split: option.splits)
  from tokenize_trim [OF ts] p clean_response_parsed [OF ts] show ?thesis
    by (simp add: JSON_parse_def)
qed

text \<open>
  Claim C9. When the input parses strictly as JSON and the value is neither an
  object nor an array, the \<open>try\<close> block itself returns the result with
  \<open>summary\<close> \<open>null\<close> and no issues, so the \<open>catch\<close> block with its span
  extraction is not entered, and that is the result of \<open>parseReviewResponse\<close>.
\<close>

theorem parseReviewResponse_scalar:
  assumes "JSON_parse response = Some v" and "is_scalar v"
  shows "try_block response = Inr \<lparr>summary = JNull, issues = JArray []\<rparr> \<and>
         parseReviewResponse response = Inr \<lparr>summary = JNull, issues = JArray []\<rparr>"
  using JSON_parse_clean_response [OF assms(1)] assms(2)
  by (cases v) (simp_all add: try_block_def parseReviewResponse_def)

text \<open>The theorem at the input \<open>42\<close>.\<close>

theorem parseReviewResponse_scalar_witness:
  "JSON_parse (js ''42'') = Some (JNumber False 42 0) \<and>
   parseReviewResponse (js ''42'') = Inr \<lparr>summary = JNull, issues = JArray []\<rparr>"
proof -
  have p: "JSON_parse (js ''42'') = Some (JNumber False 42 0)"
    by (simp add: js_defs)
  from parseReviewResponse_scalar [OF p] p show ?thesis by simp
qed

text \<open>
  Claim C4. The input is prose around a JSON array with one issue object. The array
  span is there and parses to the array of that issue, but the \<open>catch\<close> block
  tries the object span first: it is the issue object itself, it parses, it has no
  \<open>issues\<close> member, and the result has no issues at all.
\<close>

theorem parseReviewResponse_single_issue_lost:
  \<open>match_span 0x5B 0x5D (js ''Here you go: [{"line":3,"severity":"warning"}] Thanks!'') =
     Some (js ''[{"line":3,"severity":"warning"}]'') \<and>
   JSON_parse (js ''[{"line":3,"severity":"warning"}]'') =
     Some (JArray [JObject [(js ''line'', JNumber False 3 0),
                            (js ''severity'', JString (js ''warning''))]]) \<and>
   parseReviewResponse (js ''Here you go: [{"line":3,"severity":"warning"}] Thanks!'') =
     Inr \<lparr>summary = JNull, issues = JArray []\<rparr>\<close>
  by (simp add: js_defs)

text \<open>
  The neighbouring paths do recover the issues: the same array without the prose
  around it goes through the \<open>try\<close> block, and an array of two issue objects in
  prose goes through the array span, since the object span from the first brace to the
  last is then no JSON.
\<close>

lemma parseReviewResponse_bare_array:
  \<open>parseReviewResponse (js ''[{"line":3,"severity":"warning"}]'') =
     Inr \<lparr>summary = JNull,
          issues = JArray [JObject [(js ''line'', JNumber False 3 0),
                                    (js ''severity'', JString (js ''warning''))]]\<rparr>\<close>
  by (simp add: js_defs)

lemma parseReviewResponse_two_issues_recovered:
  \<open>parseReviewResponse (js ''Here you go: [{"line":3},{"line":4}] Thanks!'') =
     Inr \<lparr>summary = JNull,
          issues = JArray [JObject [(js ''line'', JNumber False 3 0)],
                           JObject [(js ''line'', JNumber False 4 0)]]\<rparr>\<close>
  by (simp add: js_defs)

section \<open>Properties of the remote content fetcher\<close>

lemma fetch_changes_bounds:
  "length diffs \<le> 15 \<Longrightarrow> list_all good_record diffs \<Longrightarrow>
   length (fetch_changes fetch src tgt cs n diffs) \<le> 15 \<and>
   list_all good_record (fetch_changes fetch src tgt cs n diffs)"
proof (induction cs arbitrary: n diffs)
  case Nil
  then show ?case by simp
next
  case (Cons c cs)
  have step: "\<And>n new original ct p. \<not> MAX_FILES \<le> length diffs \<Longrightarrow> new \<noteq> [] \<Longrightarrow> length new \<le> 50000 \<Longrightarrow>
     length (fetch_changes fetch src tgt cs n (diffs @ [api_diff p original new ct])) \<le> 15 \<and>
     list_all good_record (fetch_changes fetch src tgt cs n (diffs @ [api_diff p original new ct]))"
    using Cons.prems
    by (intro Cons.IH) (simp_all add: MAX_FILES_def good_record_def api_diff_def)
  have keep: "\<And>n. length (fetch_changes fetch src tgt cs n diffs) \<le> 15 \<and>
     list_all good_record (fetch_changes fetch src tgt cs n diffs)"
    using Cons.prems by (intro Cons.IH)
  show ?case
    using Cons.prems keep step
    by (simp add: Let_def MAX_FILE_SIZE_def truthy_string_def)
qed

text \<open>
  Claim C5. For every change list and every behaviour of the per-file fetches,
  \<open>extractFromADOApi\<close> returns at most 15 records, and the new content of each is
  not empty and has at most 50000 code units.
\<close>

theorem extractFromADOApi_bounds:
  "length (extractFromADOApi api) \<le> 15 \<and>
   (\<forall>d \<in> set (extractFromADOApi api).
      \<exists>c. newContent d = Some c \<and> c \<noteq> [] \<and> length c \<le> 50000)"
proof -
  have "length (extractFromADOApi api) \<le> 15 \<and> list_all good_record (extractFromADOApi api)"
    using fetch_changes_bounds [of "[]"]
    by (simp add: extractFromADOApi_def Let_def split: option.splits)
  then show ?thesis
    by (auto simp add: list_all_iff good_record_def split: option.splits)
qed

lemma offline_api_empty: "extractFromADOApi offline_api = []"
  by (simp add: extractFromADOApi_def offline_api_def)

lemma one_file_api_value:
  "extractFromADOApi one_file_api =
     [api_diff (js ''/src/a.js'') (js ''let a = 1;'') (js ''let a = 2;'') (js ''edit'')]"
  by (simp add: extractFromADOApi_def one_file_api_def changesList_def or_else_def
      truthy_string_def or_empty_def Let_def MAX_FILES_def MAX_FILE_SIZE_def binaryExtensions_def
      endsWith_def toLowerCase_def lower_ascii_def js_def cu_def)

text \<open>The theorem at a change list of one edited file.\<close>

theorem extractFromADOApi_bounds_witness:
  "extractFromADOApi one_file_api =
     [api_diff (js ''/src/a.js'') (js ''let a = 1;'') (js ''let a = 2;'') (js ''edit'')] \<and>
   length (extractFromADOApi one_file_api) \<le> 15"
  using extractFromADOApi_bounds [of one_file_api] one_file_api_value
  by simp

section \<open>Properties of the extraction strategy chain\<close>

lemma trim_Nil: "trim [] = []"
  by (simp add: trim_def trimEnd_def)

lemma trim_nonempty: "trim s \<noteq> [] \<Longrightarrow> s \<noteq> []"
  using trim_Nil by auto

lemma selected_not_current: "js ''selected'' \<noteq> js ''current''"
  by (simp add: js_def cu_def)

lemma scoped_Nil: "scoped type [] = []"
  by (simp add: scoped_def)

lemma dom_chain_eq:
  "(if 0 < length (extractFromSideBySideView p)
    then (scoped type (extractFromSideBySideView p), tried @ [SideBySideView])
    else if 0 < length (extractFromModernViewer p)
    then (scoped type (extractFromModernViewer p), tried @ [SideBySideView, ModernViewer])
    else if 0 < length (extractFromFileDiffContainers p)
    then (scoped type (extractFromFileDiffContainers p),
          tried @ [SideBySideView, ModernViewer, FileDiffContainers])
    else if 0 < length (extractFromMonacoEditor p)
    then (scoped type (extractFromMonacoEditor p),
          tried @ [SideBySideView, ModernViewer, FileDiffContainers, MonacoEditor])
    else if 0 < length (extractFromGenericCodeBlocks p)
    then (scoped type (extractFromGenericCodeBlocks p),
          tried @ [SideBySideView, ModernViewer, FileDiffContainers, MonacoEditor,
                 GenericCodeBlocks])
    else if 0 < length (extractFromVisibleDiffArea p)
    then (scoped type (extractFromVisibleDiffArea p),
          tried @ [SideBySideView, ModernViewer, FileDiffContainers, MonacoEditor,
                 GenericCodeBlocks, VisibleDiffArea])
    else ([], tried @ [SideBySideView, ModernViewer, FileDiffContainers, MonacoEditor,
                     GenericCodeBlocks, VisibleDiffArea])) =
   (scoped type (fst (first_nonempty (dom_outputs p))),
    tried @ snd (first_nonempty (dom_outputs p)))"
proof -
  consider
      "extractFromSideBySideView p \<noteq> []"
    | "extractFromSideBySideView p = []" "extractFromModernViewer p \<noteq> []"
    | "extractFromSideBySideView p = []" "extractFromModernViewer p = []"
      "extractFromFileDiffContainers p \<noteq> []"
    | "extractFromSideBySideView p = []" "extractFromModernViewer p = []"
      "extractFromFileDiffContainers p = []" "extractFromMonacoEditor p \<noteq> []"
    | "extractFromSideBySideView p = []" "extractFromModernViewer p = []"
      "extractFromFileDiffContainers p = []" "extractFromMonacoEditor p = []"
      "extractFromGenericCodeBlocks p \<noteq> []"
    | "extractFromSideBySideView p = []" "extractFromModernViewer p = []"
      "extractFromFileDiffContainers p = []" "extractFromMonacoEditor p = []"
      "extractFromGenericCodeBlocks p = []" "extractFromVisibleDiffArea p \<noteq> []"
    | "extractFromSideBySideView p = []" "extractFromModernViewer p = []"
      "extractFromFileDiffContainers p = []" "extractFromMonacoEditor p = []"
      "extractFromGenericCodeBlocks p = []" "extractFromVisibleDiffArea p = []"
    by blast
  then show ?thesis
    by cases (simp_all add: dom_outputs_def scoped_Nil)
qed

text \<open>
  What the reducer returns: when its output is not empty, that is the output of a
  strategy before which every strategy gave nothing, and the strategies consulted are
  exactly those up to it; when its output is empty, every strategy gave nothing and
  all were consulted.
\<close>

lemma first_nonempty_found:
  "fst (first_nonempty outs) \<noteq> [] \<Longrightarrow>
   \<exists>before s after.
     outs = before @ (s, fst (first_nonempty outs)) # after \<and>
     list_all (\<lambda>(s', out). out = []) before \<and>
     snd (first_nonempty outs) = map fst before @ [s]"
proof (induction outs rule: first_nonempty.induct)
  case 1
  then show ?case by simp
next
  case (2 s out rest)
  show ?case
  proof (cases "out = []")
    case False
    then have "(s, out) # rest = [] @ (s, fst (first_nonempty ((s, out) # rest))) # rest \<and>
      list_all (\<lambda>(s', out). out = []) [] \<and>
      snd (first_nonempty ((s, out) # rest)) = map fst [] @ [s]"
      by simp
    then show ?thesis by blast
  next
    case True
    with "2.prems" have "fst (first_nonempty rest) \<noteq> []" by simp
    with "2.IH" True obtain before s' after where
      "rest = before @ (s', fst (first_nonempty rest)) # after"
      "list_all (\<lambda>(s', out). out = []) before"
      "snd (first_nonempty rest) = map fst before @ [s']"
      by blast
    with True have
      "(s, out) # rest =
         ((s, out) # before) @ (s', fst (first_nonempty ((s, out) # rest))) # after \<and>
       list_all (\<lambda>(s', out). out = []) ((s, out) # before) \<and>
       snd (first_nonempty ((s, out) # rest)) = map fst ((s, out) # before) @ [s']"
      by simp
    then show ?thesis by blast
  qed
qed

lemma first_nonempty_none:
  "fst (first_nonempty outs) = [] \<Longrightarrow>
   list_all (\<lambda>(s, out). out = []) outs \<and> snd (first_nonempty outs) = map fst outs"
  by (induction outs rule: first_nonempty.induct) (auto split: if_splits)

text \<open>
  Claim C1, as the code has it. For every page and scope, \<open>extractDiffs\<close> consults
  the strategies that the scope admits, in the fixed order (the selection for
  \<open>selected\<close>, the remote API for every other scope, then side-by-side view, modern
  viewer, file-diff containers, Monaco editor, generic code blocks, visible diff
  area), stops at the first whose output is not empty and runs no strategy after it.
  It returns that output, cut to its first record when the scope is \<open>current\<close>,
  and the empty sequence when every strategy gave nothing.
\<close>

theorem extractDiffs_first_nonempty:
  "extractDiffs type p =
     (scoped type (fst (first_nonempty (strategy_outputs type p))),
      snd (first_nonempty (strategy_outputs type p)))"
  unfolding extractDiffs_def Let_def dom_chain_eq
  using trim_nonempty [of "getSelection p"] selected_not_current
  by (simp add: strategy_outputs_def selection_output_def scoped_def trim_Nil)

text \<open>The theorem at a page whose side-by-side view gives two records, scope \<open>all\<close>.\<close>

theorem extractDiffs_first_nonempty_witness:
  "extractDiffs (js ''all'') side_by_side_page = ([record_a, record_b], [ADOApi, SideBySideView])"
  using extractDiffs_first_nonempty [of "js ''all''" side_by_side_page]
  by (simp add: strategy_outputs_def dom_outputs_def scoped_def side_by_side_page_def
      offline_api_empty js_def cu_def)

text \<open>
  Claim C1 as stated fails twice. With scope \<open>current\<close> the side-by-side view is
  the first strategy with a non-empty output, two records, and the chain returns only
  the first of them. With scope \<open>selected\<close> and an empty selection the remote API
  has a record to give and every other strategy has none, and the chain returns
  nothing, since it does not ask the remote API.
\<close>

theorem extractDiffs_output_counterexample:
  "extractFromADOApi (adoApi side_by_side_page) = [] \<and>
   extractFromSideBySideView side_by_side_page = [record_a, record_b] \<and>
   fst (extractDiffs (js ''current'') side_by_side_page) = [record_a] \<and>
   getSelection api_only_page = [] \<and>
   extractFromADOApi (adoApi api_only_page) \<noteq> [] \<and>
   fst (extractDiffs (js ''selected'') api_only_page) = []"
  by (simp add: extractDiffs_def scoped_def side_by_side_page_def api_only_page_def
      offline_api_empty one_file_api_value selected_not_current trim_Nil)

text \<open>
  Claim C2, as the code has it. With scope \<open>selected\<close> the remote API is never
  run. A selection that is not blank (not empty after \<open>trim\<close>) is returned
  verbatim as the single record and no other strategy is run. With a blank selection
  the chain goes on to the six page-scanning strategies in their order and returns the
  first non-empty output among them, or the empty sequence when there is none.
\<close>

theorem extractDiffs_selected:
  "extractDiffs (js ''selected'') p =
     (if trim (getSelection p) \<noteq> [] then ([selection_diff (getSelection p)], [Selection])
      else (fst (first_nonempty (dom_outputs p)), Selection # snd (first_nonempty (dom_outputs p))))
   \<and> ADOApi \<notin> set (snd (extractDiffs (js ''selected'') p))"
proof -
  have no_api: "ADOApi \<notin> set (snd (first_nonempty (dom_outputs p)))"
    by (simp add: dom_outputs_def)
  show ?thesis
    unfolding extractDiffs_def Let_def dom_chain_eq
    using trim_nonempty [of "getSelection p"] selected_not_current no_api
    by (simp add: scoped_def trim_Nil)
qed

text \<open>The theorem at a page with the selection \<open>x = 1\<close>.\<close>

theorem extractDiffs_selected_witness:
  "extractDiffs (js ''selected'') selection_page =
     ([selection_diff (js ''x = 1'')], [Selection])"
  using extractDiffs_selected [of selection_page]
  by (simp add: selection_page_def side_by_side_page_def trim_def trimEnd_def
      is_js_whitespace_def js_def cu_def)

text \<open>
  Claim C2 as stated fails when the selection is empty and the side-by-side view
  has records: that strategy is run and its records are returned.
\<close>

theorem extractDiffs_selected_counterexample:
  "getSelection side_by_side_page = [] \<and>
   extractDiffs (js ''selected'') side_by_side_page =
     ([record_a, record_b], [Selection, SideBySideView])"
  by (simp add: extractDiffs_def scoped_def side_by_side_page_def selected_not_current trim_Nil)

section \<open>Properties of the prompt builder\<close>

text \<open>
  Claim C8. For a record that is not API-sourced and has a \<open>content\<close>, and for
  every settings value, the prompt is the addition-only template around the code to
  review cut to its first 15000 code units, where the code to review is the
  \<open>content\<close> of the additions joined by line feeds when \<open>additions\<close> is present
  and not empty, and the record's raw \<open>content\<close> otherwise.
\<close>

theorem buildReviewPrompt_additions_only:
  assumes "\<not> isApiDiff d" and "diff.content d = Some c"
  shows "buildReviewPrompt d s =
           Inr (dom_intro @ filename d @ dom_lines_added @ show_nat (additionsCount d) @ dom_code @
                take 15000 (case additions d of
                              None \<Rightarrow> c
                            | Some [] \<Rightarrow> c
                            | Some (a # as) \<Rightarrow> join [LF] (map diff_line.content (a # as))) @
                dom_requirements @ prompt_end s)"
  using assms
  by (simp add: buildReviewPrompt_def codeToReview_def substring0_def
      split: option.splits list.splits)

text \<open>The theorem at a record with two added lines.\<close>

theorem buildReviewPrompt_additions_only_witness:
  "buildReviewPrompt
     (record_a\<lparr>additions := Some [\<lparr>line = 1, diff_line.content = js ''x = 1''\<rparr>,
                                 \<lparr>line = 2, diff_line.content = js ''y = 2''\<rparr>]\<rparr>) example_settings =
   Inr (dom_intro @ js ''a.js'' @ dom_lines_added @ js ''2'' @ dom_code @
        (js ''x = 1'' @ [LF] @ js ''y = 2'') @ dom_requirements @ prompt_end example_settings)"
  using buildReviewPrompt_additions_only
    [of "record_a\<lparr>additions := Some [\<lparr>line = 1, diff_line.content = js ''x = 1''\<rparr>,
                                      \<lparr>line = 2, diff_line.content = js ''y = 2''\<rparr>]\<rparr>"
      "js ''let a = 1;''" example_settings]
  by (simp add: record_a_def plain_record_def additionsCount_def show_nat_def js_def cu_def)

section \<open>Properties of the review orchestrator\<close>

text \<open>
  Claim C6. While a review is in flight (\<open>isReviewing\<close> is set) a call of
  \<open>handleReview\<close> replies with \<open>success: false\<close> and the message
  \<open>Review already in progress\<close>, and the state is the one before the call: the
  stored \<open>reviewStats\<close>, the settings, the flag and every effect on the page.
\<close>

theorem handleReview_busy:
  assumes "isReviewing st"
  shows "handleReview type s w st = (Failure (js ''Review already in progress''), st)"
  using assms by (simp add: handleReview_def)

text \<open>The theorem at a busy state.\<close>

theorem handleReview_busy_witness:
  "isReviewing busy_state \<and>
   handleReview (js ''all'') example_settings example_world busy_state =
     (Failure (js ''Review already in progress''), busy_state)"
  using handleReview_busy [of busy_state "js ''all''" example_settings example_world]
  by (simp add: busy_state_def idle_state_def)

lemma count_severity_fields:
  "files (count_severity st sev) = files st"
  "critical (count_severity st sev) =
     critical st + (if sev = Some (JString (js ''critical'')) then 1 else 0)"
  "warnings (count_severity st sev) =
     warnings st + (if sev \<noteq> Some (JString (js ''critical'')) \<and> sev = Some (JString (js ''warning'')) then 1 else 0)"
  "suggestions (count_severity st sev) =
     suggestions st + (if sev \<noteq> Some (JString (js ''critical'')) \<and> sev \<noteq> Some (JString (js ''warning'')) then 1 else 0)"
  by (simp_all add: count_severity_def)

lemma critical_not_warning: "js ''critical'' \<noteq> js ''warning''"
  by (simp add: js_def cu_def)

lemma issue_severity_total: "issue \<noteq> JNull \<Longrightarrow> \<exists>sev. issue_severity issue = Inr sev"
  by (cases issue) simp_all

lemma count_issues_sum:
  "count_issues st is = Inr st' \<Longrightarrow>
   critical st' + warnings st' + suggestions st' =
     critical st + warnings st + suggestions st + length is"
proof (induction "is" arbitrary: st)
  case Nil
  then show ?case by simp
next
  case (Cons issue rest)
  then obtain sev where sev: "issue_severity issue = Inr sev"
    by (cases "issue_severity issue") simp_all
  with Cons.prems have "count_issues (count_severity st sev) rest = Inr st'" by simp
  from Cons.IH [OF this] show ?case
    by (simp add: count_severity_fields)
qed

text \<open>
  Claim C10. When no element of the issues array is \<open>null\<close> the \<open>forEach\<close>
  runs through, and it counts the issues whose severity is exactly \<open>critical\<close>
  in \<open>critical\<close>, those whose severity is exactly \<open>warning\<close> in \<open>warnings\<close>
  and all others (any other severity, no severity, a severity that is no string, an
  element that is no object) in \<open>suggestions\<close>; the three counters grow by the
  number of issues together.
\<close>

theorem count_issues_partition:
  assumes "JNull \<notin> set is"
  shows "\<exists>st'. count_issues st is = Inr st' \<and>
           critical st' = critical st + length (filter (has_severity (js ''critical'')) is) \<and>
           warnings st' = warnings st + length (filter (has_severity (js ''warning'')) is) \<and>
           suggestions st' = suggestions st +
             length (filter (\<lambda>i. \<not> has_severity (js ''critical'') i \<and>
                                  \<not> has_severity (js ''warning'') i) is) \<and>
           critical st' + warnings st' + suggestions st' =
             critical st + warnings st + suggestions st + length is"
  using assms
proof (induction "is" arbitrary: st)
  case Nil
  then show ?case by simp
next
  case (Cons issue rest)
  from Cons.prems have "issue \<noteq> JNull" and rest: "JNull \<notin> set rest" by auto
  then obtain sev where sev: "issue_severity issue = Inr sev"
    using issue_severity_total by blast
  from Cons.IH [OF rest, of "count_severity st sev"] obtain st' where
    st': "count_issues (count_severity st sev) rest = Inr st'"
      "critical st' = critical (count_severity st sev) + length (filter (has_severity (js ''critical'')) rest)"
      "warnings st' = warnings (count_severity st sev) + length (filter (has_severity (js ''warning'')) rest)"
      "suggestions st' = suggestions (count_severity st sev) +
             length (filter (\<lambda>i. \<not> has_severity (js ''critical'') i \<and>
                                  \<not> has_severity (js ''warning'') i) rest)"
    by blast
  have "count_issues st (issue # rest) = Inr st'"
    using sev st'(1) by simp
  moreover have "critical st' = critical st + length (filter (has_severity (js ''critical'')) (issue # rest))"
    using st'(2) sev by (simp add: count_severity_fields has_severity_def)
  moreover have "warnings st' = warnings st + length (filter (has_severity (js ''warning'')) (issue # rest))"
    using st'(3) sev critical_not_warning by (auto simp add: count_severity_fields has_severity_def)
  moreover have "suggestions st' = suggestions st +
             length (filter (\<lambda>i. \<not> has_severity (js ''critical'') i \<and>
                                  \<not> has_severity (js ''warning'') i) (issue # rest))"
    using st'(4) sev by (simp add: count_severity_fields has_severity_def)
  moreover have "critical st' + warnings st' + suggestions st' =
             critical st + warnings st + suggestions st + length (issue # rest)"
    using count_issues_sum [OF \<open>count_issues st (issue # rest) = Inr st'\<close>] .
  ultimately show ?case by blast
qed

text \<open>
  The theorem at five issues: one critical, one warning, one of an unknown
  severity, one without severity and one that is a number.
\<close>

theorem count_issues_partition_witness:
  "count_issues \<lparr>files = 1, critical = 0, warnings = 0, suggestions = 0\<rparr> example_issues =
     Inr \<lparr>files = 1, critical = 1, warnings = 1, suggestions = 3\<rparr>"
  using count_issues_partition
    [of example_issues "\<lparr>files = 1, critical = 0, warnings = 0, suggestions = 0\<rparr>"]
  by (simp add: example_issues_def count_severity_def get_prop_def js_def cu_def)

lemma issues_array_length:
  "issues_array r = Inr is \<Longrightarrow> (case issues r of JArray xs \<Rightarrow> length xs | _ \<Rightarrow> 0) = length is"
  by (cases "issues r") (auto simp add: issues_array_def split: if_splits)

lemma review_loop_counts:
  "review_loop w s ds st tot sts = (st', Inr (tot', sts')) \<Longrightarrow>
   tot' = tot + sum_list (parsed_issue_counts w s (geminiCalls st) ds) \<and>
   critical sts' + warnings sts' + suggestions sts' + tot =
     critical sts + warnings sts + suggestions sts + tot'"
proof (induction ds arbitrary: st tot sts)
  case Nil
  then show ?case by simp
next
  case (Cons d ds)
  let ?st1 = "st\<lparr>geminiCalls := Suc (geminiCalls st)\<rparr>"
  from Cons.prems obtain r where r: "reviewDiff w (geminiCalls st) d s = Inr r"
    by (cases "reviewDiff w (geminiCalls st) d s") (simp_all add: Let_def)
  from Cons.prems r obtain "is" where "is": "issues_array r = Inr is"
    by (cases "issues_array r") (simp_all add: Let_def)
  have len: "(case issues r of JArray xs \<Rightarrow> length xs | _ \<Rightarrow> 0) = length is"
    using issues_array_length [OF "is"] .
  show ?case
  proof (cases "truthy (summary r) \<or> 0 < length is")
    case True
    with Cons.prems r "is" obtain sts1 where c: "count_issues sts is = Inr sts1"
      by (cases "count_issues sts is") (simp_all add: Let_def)
    let ?st2 = "?st1\<lparr>displayed := displayed ?st1 @ [(d, r)]\<rparr>"
    from Cons.prems r "is" True c have
      "review_loop w s ds ?st2 (tot + length is) sts1 = (st', Inr (tot', sts'))"
      by (cases "displayIssues_error w d r") (simp_all add: Let_def)
    from Cons.IH [OF this] count_issues_sum [OF c] len r show ?thesis
      by simp
  next
    case False
    with Cons.prems r "is" have
      "review_loop w s ds ?st1 tot sts = (st', Inr (tot', sts'))"
      by (simp add: Let_def)
    from Cons.IH [OF this] False len r show ?thesis
      by simp
  qed
qed

text \<open>
  Claim C7. When \<open>handleReview\<close> replies with success, the stats it has stored
  satisfy \<open>critical + warnings + suggestions = issueCount\<close>, and \<open>issueCount\<close>
  is the sum, over the extracted records, of the lengths of the issues arrays parsed
  from the model's answers.
\<close>

theorem handleReview_stats_total:
  assumes "handleReview type s w st = (Success n, st')"
  shows "\<exists>sts. reviewStats st' = Some sts \<and>
           critical sts + warnings sts + suggestions sts = n \<and>
           n = sum_list (parsed_issue_counts w s (geminiCalls st) (fst (extractDiffs type (page w))))"
proof -
  let ?diffs = "fst (extractDiffs type (page w))"
  let ?st4 = "showNotification (reviewing_message (length ?diffs)) (js ''info'')
     ((showNotification starting_message (js ''info'') (st\<lparr>isReviewing := True, currentSettings := Some s\<rparr>))
       \<lparr>invoked := invoked (showNotification starting_message (js ''info'') (st\<lparr>isReviewing := True, currentSettings := Some s\<rparr>)) @ snd (extractDiffs type (page w))\<rparr>)"
  let ?sts0 = "\<lparr>files = length ?diffs, critical = 0, warnings = 0, suggestions = 0\<rparr>"
  from assms have idle: "\<not> isReviewing st" and nonempty: "length ?diffs \<noteq> 0"
    by (auto simp add: handleReview_def Let_def split: if_splits)
  obtain st5 res where loop: "review_loop w s ?diffs ?st4 0 ?sts0 = (st5, res)"
    by (cases "review_loop w s ?diffs ?st4 0 ?sts0")
  from assms idle nonempty loop obtain sts where
    res: "res = Inr (n, sts)" and st': "reviewStats st' = Some sts"
    by (cases res) (auto simp add: handleReview_def Let_def showNotification_def split: prod.splits)
  have calls: "geminiCalls ?st4 = geminiCalls st"
    by (simp add: showNotification_def)
  from review_loop_counts [OF loop [unfolded res]] calls
  have "n = sum_list (parsed_issue_counts w s (geminiCalls st) ?diffs)"
    and "critical sts + warnings sts + suggestions sts = n"
    by simp_all
  with st' show ?thesis by blast
qed

lemma two_issue_response_parsed:
  "parseReviewResponse two_issue_response =
     Inr \<lparr>summary = JNull,
          issues = JArray [JObject [(js ''severity'', JString (js ''critical''))],
                           JObject [(js ''severity'', JString (js ''minor''))]]\<rparr>"
  by (simp add: two_issue_response_def js_defs)

lemma example_review_loop:
  "snd (review_loop example_world example_settings [record_a] st 0
          \<lparr>files = 1, critical = 0, warnings = 0, suggestions = 0\<rparr>) =
     Inr (2, \<lparr>files = 1, critical = 1, warnings = 0, suggestions = 1\<rparr>)"
  by (simp add: reviewDiff_def buildReviewPrompt_def codeToReview_def record_a_def
      plain_record_def example_world_def two_issue_response_parsed issues_array_def
      count_severity_def get_prop_def Let_def js_def cu_def)

text \<open>
  The theorem at a pass over one record for which the model reports two issues.
\<close>

theorem handleReview_stats_total_witness:
  "fst (handleReview (js ''current'') example_settings example_world idle_state) = Success 2 \<and>
   map_option (\<lambda>sts. critical sts + warnings sts + suggestions sts)
     (reviewStats (snd (handleReview (js ''current'') example_settings example_world idle_state))) =
     Some 2"
proof -
  let ?r = "handleReview (js ''current'') example_settings example_world idle_state"
  let ?st1 = "idle_state\<lparr>isReviewing := True, currentSettings := Some example_settings\<rparr>"
  let ?st2 = "showNotification starting_message (js ''info'') ?st1"
  let ?st3 = "?st2\<lparr>invoked := invoked ?st2 @
                snd (extractDiffs (js ''current'') (page example_world))\<rparr>"
  let ?st4 = "showNotification (reviewing_message (length [record_a])) (js ''info'') ?st3"
  let ?sts0 = "\<lparr>files = length [record_a], critical = 0, warnings = 0, suggestions = 0\<rparr>"
  have diffs: "fst (extractDiffs (js ''current'') (page example_world)) = [record_a]"
    by (simp add: extractDiffs_def scoped_def example_world_def side_by_side_page_def
        offline_api_empty)
  obtain st5 res where
    loop: "review_loop example_world example_settings [record_a] ?st4 0 ?sts0 = (st5, res)"
    by (cases "review_loop example_world example_settings [record_a] ?st4 0 ?sts0")
  with example_review_loop [of ?st4]
  have res: "res = Inr (2, \<lparr>files = 1, critical = 1, warnings = 0, suggestions = 1\<rparr>)"
    by (simp del: review_loop.simps)
  have idle: "\<not> isReviewing idle_state"
    by (simp add: idle_state_def)
  have "fst ?r = Success 2"
    unfolding handleReview_def Let_def diffs loop res using idle by simp
  then have "?r = (Success 2, snd ?r)"
    by (metis prod.collapse)
  from handleReview_stats_total [OF this] \<open>fst ?r = Success 2\<close> show ?thesis
    by auto
qed

end
